theory Spec2Isabelle
  imports Main
begin

section \<open>Python values, dictionaries and exceptions\<close>

text \<open>
  The handlers of \<^verbatim>\<open>main.py\<close> are dynamically typed: a row returned by the driver is a
  dictionary from column names to values (\<^verbatim>\<open>dict_factory\<close>), and the payload of an update
  is the dictionary \<^verbatim>\<open>issue_update.dict(exclude_unset=True)\<close>. A UUID and a datetime are
  represented by their canonical text, which is what \<^verbatim>\<open>str()\<close> returns for them. A member
  of \<^verbatim>\<open>Status\<close> or \<^verbatim>\<open>Priority\<close> (both \<^verbatim>\<open>class X(str, Enum)\<close>) carries its qualified name,
  which is what \<^verbatim>\<open>str()\<close> returns, and its value, which is what \<^verbatim>\<open>==\<close> compares.
\<close>

type_synonym uuid = string
type_synonym timestamp = string

datatype val = Null | Text string | Uuid uuid | Timestamp timestamp | Member string string

type_synonym row = "(string \<times> val) list"

fun truthy :: "val \<Rightarrow> bool" where
  "truthy Null = False"
| "truthy (Text s) = (s \<noteq> [])"
| "truthy (Uuid u) = True"
| "truthy (Timestamp t) = True"
| "truthy (Member n v) = (v \<noteq> [])"

fun py_str :: "val \<Rightarrow> string" where
  "py_str Null = ''None''"
| "py_str (Text s) = s"
| "py_str (Uuid u) = u"
| "py_str (Timestamp t) = t"
| "py_str (Member n v) = n"

fun as_plain :: "val \<Rightarrow> val" where
  "as_plain (Member n v) = Text v"
| "as_plain x = x"

definition py_eq :: "val \<Rightarrow> val \<Rightarrow> bool" where
  "py_eq a b = (as_plain a = as_plain b)"

datatype exn =
    HTTPException nat string
  | KeyError string
  | ValidationError string
  | StorageError string

fun status_code :: "exn \<Rightarrow> nat option" where
  "status_code (HTTPException c d) = Some c"
| "status_code e = None"

fun decimal :: "nat \<Rightarrow> string" where
  "decimal n = (if n < 10 then [char_of (48 + n)] else decimal (n div 10) @ [char_of (48 + n mod 10)])"

declare decimal.simps [simp del]

text \<open>
  \<^verbatim>\<open>str(e)\<close>: Starlette renders an HTTPException as \<^verbatim>\<open>"<status>: <detail>"\<close>, Python renders
  a KeyError as the quoted key. A ValidationError and a storage error carry their message.
\<close>

fun str_exn :: "exn \<Rightarrow> string" where
  "str_exn (HTTPException c d) = decimal c @ '': '' @ d"
| "str_exn (KeyError k) = [CHR 0x27] @ k @ [CHR 0x27]"
| "str_exn (ValidationError m) = m"
| "str_exn (StorageError m) = m"

definition getitem :: "row \<Rightarrow> string \<Rightarrow> exn + val" where
  "getitem d k = (case map_of d k of None \<Rightarrow> Inl (KeyError k) | Some v \<Rightarrow> Inr v)"

definition dict_get :: "row \<Rightarrow> string \<Rightarrow> val \<Rightarrow> val" where
  "dict_get d k dflt = (case map_of d k of None \<Rightarrow> dflt | Some v \<Rightarrow> v)"

definition has_key :: "row \<Rightarrow> string \<Rightarrow> bool" where
  "has_key d k = (map_of d k \<noteq> None)"

text \<open>Sequencing of steps that may raise: the first exception leaves the sequence.\<close>

definition bind_exn :: "exn + 'a \<Rightarrow> ('a \<Rightarrow> exn + 'b) \<Rightarrow> exn + 'b" where
  "bind_exn m f = (case m of Inl e \<Rightarrow> Inl e | Inr x \<Rightarrow> f x)"

section \<open>The enumerations and request models of models.py\<close>

datatype Priority = LOW | MEDIUM | HIGH | CRITICAL

datatype Status = OPEN | IN_PROGRESS | RESOLVED | CLOSED | REOPENED

fun Priority_value :: "Priority \<Rightarrow> string" where
  "Priority_value LOW = ''low''"
| "Priority_value MEDIUM = ''medium''"
| "Priority_value HIGH = ''high''"
| "Priority_value CRITICAL = ''critical''"

fun Priority_name :: "Priority \<Rightarrow> string" where
  "Priority_name LOW = ''Priority.LOW''"
| "Priority_name MEDIUM = ''Priority.MEDIUM''"
| "Priority_name HIGH = ''Priority.HIGH''"
| "Priority_name CRITICAL = ''Priority.CRITICAL''"

fun Status_value :: "Status \<Rightarrow> string" where
  "Status_value OPEN = ''open''"
| "Status_value IN_PROGRESS = ''in_progress''"
| "Status_value RESOLVED = ''resolved''"
| "Status_value CLOSED = ''closed''"
| "Status_value REOPENED = ''reopened''"

fun Status_name :: "Status \<Rightarrow> string" where
  "Status_name OPEN = ''Status.OPEN''"
| "Status_name IN_PROGRESS = ''Status.IN_PROGRESS''"
| "Status_name RESOLVED = ''Status.RESOLVED''"
| "Status_name CLOSED = ''Status.CLOSED''"
| "Status_name REOPENED = ''Status.REOPENED''"

definition status_member :: "Status \<Rightarrow> val" where
  "status_member s = Member (Status_name s) (Status_value s)"

definition priority_member :: "Priority \<Rightarrow> val" where
  "priority_member p = Member (Priority_name p) (Priority_value p)"


text \<open>
  Every field of \<^verbatim>\<open>IssueUpdate\<close> is optional with default \<^verbatim>\<open>None\<close>. The outer option says
  whether the caller supplied the field (pydantic's set of fields that were set); the
  inner one is the value supplied, which may be \<^verbatim>\<open>null\<close>.
\<close>

record IssueUpdate =
  u_title :: "string option option"
  u_description :: "string option option"
  u_status :: "Status option option"
  u_priority :: "Priority option option"
  u_assignee_id :: "uuid option option"
  u_component :: "string option option"

fun opt_val :: "('a \<Rightarrow> val) \<Rightarrow> 'a option \<Rightarrow> val" where
  "opt_val f None = Null"
| "opt_val f (Some x) = f x"

fun field_item :: "string \<Rightarrow> ('a \<Rightarrow> val) \<Rightarrow> 'a option option \<Rightarrow> row" where
  "field_item k f None = []"
| "field_item k f (Some v) = [(k, opt_val f v)]"

text \<open>\<^verbatim>\<open>issue_update.dict(exclude_unset=True)\<close>: the supplied fields, in declaration order.\<close>

definition dict_exclude_unset :: "IssueUpdate \<Rightarrow> row" where
  "dict_exclude_unset u =
     field_item ''title'' Text (u_title u) @
     field_item ''description'' Text (u_description u) @
     field_item ''status'' status_member (u_status u) @
     field_item ''priority'' priority_member (u_priority u) @
     field_item ''assignee_id'' Uuid (u_assignee_id u) @
     field_item ''component'' Text (u_component u)"

section \<open>The data-access interface\<close>

datatype table =
    issues_by_project
  | issues_by_status
  | issues_by_assignee
  | issues_by_priority
  | issues_by_component
  | issue_history

text \<open>
  A write statement names its table and, as the CQL text does, the columns it sets and
  the columns of its \<^verbatim>\<open>WHERE\<close> clause, each with the parameter bound to it.
\<close>

datatype stmt =
    Insert table row
  | Update table row row
  | Delete table row

fun stmt_table :: "stmt \<Rightarrow> table" where
  "stmt_table (Insert t r) = t"
| "stmt_table (Update t s w) = t"
| "stmt_table (Delete t w) = t"

definition on_table :: "table \<Rightarrow> stmt list \<Rightarrow> stmt list" where
  "on_table t ws = filter (\<lambda>w. stmt_table w = t) ws"

text \<open>
  \<^verbatim>\<open>db.execute\<close> either runs the statement or raises. The store is healthy, or it fails at
  the statement reached after \<open>n\<close> more successful ones, with the driver's message.
\<close>

datatype health = Healthy | FailsAfter nat string

fun tick :: "health \<Rightarrow> exn + health" where
  "tick Healthy = Inr Healthy"
| "tick (FailsAfter 0 m) = Inl (StorageError m)"
| "tick (FailsAfter (Suc n) m) = Inr (FailsAfter n m)"

text \<open>
  A run of writes in program order: the statements before the failing one are performed
  and stay performed, the exception leaves the run.
\<close>

fun execute_all :: "health \<Rightarrow> stmt list \<Rightarrow> stmt list \<times> (exn + health)" where
  "execute_all h [] = ([], Inr h)"
| "execute_all h (w # ws) =
     (case tick h of
        Inl e \<Rightarrow> ([], Inl e)
      | Inr h' \<Rightarrow> (case execute_all h' ws of (performed, r) \<Rightarrow> (w # performed, r)))"

type_synonym db = "table \<Rightarrow> row list"

definition matches :: "row \<Rightarrow> row \<Rightarrow> bool" where
  "matches wh r = list_all (\<lambda>(c, v). map_of r c = Some v) wh"

definition select_where :: "db \<Rightarrow> table \<Rightarrow> row \<Rightarrow> row list" where
  "select_where d t wh = filter (matches wh) (d t)"

fun one :: "row list \<Rightarrow> row option" where
  "one [] = None"
| "one (r # rs) = Some r"

section \<open>Response model\<close>

definition is_uuid :: "val \<Rightarrow> bool" where
  "is_uuid v = (case v of Uuid u \<Rightarrow> True | _ \<Rightarrow> False)"

definition is_str :: "val \<Rightarrow> bool" where
  "is_str v = (case v of Text s \<Rightarrow> True | Member n s \<Rightarrow> True | _ \<Rightarrow> False)"

definition is_datetime :: "val \<Rightarrow> bool" where
  "is_datetime v = (case v of Timestamp t \<Rightarrow> True | _ \<Rightarrow> False)"

definition is_enum :: "string list \<Rightarrow> val \<Rightarrow> bool" where
  "is_enum values v = (case as_plain v of Text s \<Rightarrow> s \<in> set values | _ \<Rightarrow> False)"

definition optional :: "(val \<Rightarrow> bool) \<Rightarrow> val \<Rightarrow> bool" where
  "optional p v = (v = Null \<or> p v)"

definition Status_values :: "string list" where
  "Status_values = map Status_value [OPEN, IN_PROGRESS, RESOLVED, CLOSED, REOPENED]"

definition Priority_values :: "string list" where
  "Priority_values = map Priority_value [LOW, MEDIUM, HIGH, CRITICAL]"

definition IssueResponse_fields :: "(string \<times> (val \<Rightarrow> bool)) list" where
  "IssueResponse_fields =
     [(''issue_id'', is_uuid), (''project_id'', is_uuid), (''title'', is_str),
      (''description'', is_str), (''status'', is_enum Status_values),
      (''priority'', is_enum Priority_values), (''assignee_id'', optional is_uuid),
      (''reporter_id'', is_uuid), (''component'', optional is_str),
      (''created_at'', is_datetime), (''updated_at'', is_datetime)]"

fun first_invalid :: "(string \<times> (val \<Rightarrow> bool)) list \<Rightarrow> row \<Rightarrow> string option" where
  "first_invalid [] kw = None"
| "first_invalid ((k, p) # fs) kw =
     (case map_of kw k of
        None \<Rightarrow> Some k
      | Some v \<Rightarrow> if p v then first_invalid fs kw else Some k)"

text \<open>
  Building an \<^verbatim>\<open>IssueResponse\<close> validates the keyword arguments against the declared
  field types and raises a ValidationError, here carrying the first offending field.
\<close>

definition IssueResponse :: "row \<Rightarrow> exn + row" where
  "IssueResponse kw =
     (case first_invalid IssueResponse_fields kw of
        Some k \<Rightarrow> Inl (ValidationError k)
      | None \<Rightarrow> Inr kw)"

section \<open>create_issue\<close>



text \<open>
  \<^verbatim>\<open>except Exception as e: raise HTTPException(status_code=500, detail=prefix + str(e))\<close>.
  HTTPException is itself a subclass of Exception, so an HTTPException raised inside the
  \<^verbatim>\<open>try\<close> block is caught here like any other.
\<close>

definition except_Exception :: "string \<Rightarrow> stmt list \<times> (exn + row) \<Rightarrow> stmt list \<times> (exn + row)" where
  "except_Exception prefix out =
     (case out of
        (performed, Inl e) \<Rightarrow> (performed, Inl (HTTPException 500 (prefix @ str_exn e)))
      | (performed, Inr r) \<Rightarrow> (performed, Inr r))"


section \<open>update_issue: what both registrations share\<close>

text \<open>
  \<^verbatim>\<open>main.py\<close> registers two handlers for \<^verbatim>\<open>PUT /issues/{issue_id}\<close>, both named
  \<^verbatim>\<open>update_issue\<close>. The local variables of a handler, once the current row is read and
  the payload merged over it, are collected in one record; its fields carry the names the
  source gives them.
\<close>

record locals =
  project_uuid :: uuid
  issue_uuid :: uuid
  updated_fields :: row
  created_at :: val
  updated_at :: timestamp
  old_title :: val
  old_description :: val
  old_status :: val
  old_priority :: val
  old_assignee_id :: val
  old_component :: val
  new_title :: val
  new_description :: val
  new_status :: val
  new_priority :: val
  new_assignee_id :: val
  new_component :: val

type_synonym change = "string \<times> val \<times> val"

text \<open>\<^verbatim>\<open>str(x) if x else None\<close>, \<^verbatim>\<open>x if x else None\<close> and \<^verbatim>\<open>str(v) if v is not None else None\<close>.\<close>

definition str_if_truthy :: "val \<Rightarrow> val" where
  "str_if_truthy x = (if truthy x then Text (py_str x) else Null)"

definition self_if_truthy :: "val \<Rightarrow> val" where
  "self_if_truthy x = (if truthy x then x else Null)"

definition str_if_not_None :: "val \<Rightarrow> val" where
  "str_if_not_None v = (if v \<noteq> Null then Text (py_str v) else Null)"

definition update_main :: "locals \<Rightarrow> stmt list" where
  "update_main L =
     [Update issues_by_project
        [(''title'', new_title L), (''description'', new_description L),
         (''status'', new_status L), (''priority'', new_priority L),
         (''assignee_id'', new_assignee_id L), (''updated_at'', Timestamp (updated_at L))]
        [(''project_id'', Uuid (project_uuid L)), (''created_at'', created_at L),
         (''issue_id'', Uuid (issue_uuid L))]]"

definition delete_old_status :: "locals \<Rightarrow> stmt" where
  "delete_old_status L =
     Delete issues_by_status
       [(''project_id'', Uuid (project_uuid L)), (''status'', old_status L),
        (''created_at'', created_at L), (''issue_id'', Uuid (issue_uuid L))]"

definition insert_new_status :: "locals \<Rightarrow> stmt" where
  "insert_new_status L =
     Insert issues_by_status
       [(''project_id'', Uuid (project_uuid L)), (''status'', new_status L),
        (''created_at'', created_at L), (''issue_id'', Uuid (issue_uuid L)),
        (''title'', new_title L), (''priority'', new_priority L),
        (''assignee_id'', new_assignee_id L)]"

definition update_status :: "locals \<Rightarrow> val \<Rightarrow> stmt" where
  "update_status L status_key =
     Update issues_by_status
       [(''title'', new_title L), (''priority'', new_priority L),
        (''assignee_id'', new_assignee_id L)]
       [(''project_id'', Uuid (project_uuid L)), (''status'', status_key),
        (''created_at'', created_at L), (''issue_id'', Uuid (issue_uuid L))]"

definition delete_old_priority :: "locals \<Rightarrow> stmt" where
  "delete_old_priority L =
     Delete issues_by_priority
       [(''project_id'', Uuid (project_uuid L)), (''priority'', old_priority L),
        (''created_at'', created_at L), (''issue_id'', Uuid (issue_uuid L))]"

definition insert_new_priority :: "locals \<Rightarrow> stmt" where
  "insert_new_priority L =
     Insert issues_by_priority
       [(''project_id'', Uuid (project_uuid L)), (''priority'', new_priority L),
        (''created_at'', created_at L), (''issue_id'', Uuid (issue_uuid L)),
        (''title'', new_title L), (''status'', new_status L),
        (''assignee_id'', new_assignee_id L)]"

definition update_priority :: "locals \<Rightarrow> val \<Rightarrow> stmt" where
  "update_priority L priority_key =
     Update issues_by_priority
       [(''title'', new_title L), (''status'', new_status L),
        (''assignee_id'', new_assignee_id L)]
       [(''project_id'', Uuid (project_uuid L)), (''priority'', priority_key),
        (''created_at'', created_at L), (''issue_id'', Uuid (issue_uuid L))]"

definition delete_old_assignee :: "locals \<Rightarrow> stmt" where
  "delete_old_assignee L =
     Delete issues_by_assignee
       [(''project_id'', Uuid (project_uuid L)), (''assignee_id'', old_assignee_id L),
        (''status'', old_status L), (''created_at'', created_at L),
        (''issue_id'', Uuid (issue_uuid L))]"

definition insert_new_assignee :: "locals \<Rightarrow> stmt" where
  "insert_new_assignee L =
     Insert issues_by_assignee
       [(''project_id'', Uuid (project_uuid L)), (''assignee_id'', new_assignee_id L),
        (''status'', new_status L), (''created_at'', created_at L),
        (''issue_id'', Uuid (issue_uuid L)), (''title'', new_title L),
        (''priority'', new_priority L)]"

definition update_assignee :: "locals \<Rightarrow> stmt" where
  "update_assignee L =
     Update issues_by_assignee
       [(''title'', new_title L), (''priority'', new_priority L)]
       [(''project_id'', Uuid (project_uuid L)), (''assignee_id'', new_assignee_id L),
        (''status'', new_status L), (''created_at'', created_at L),
        (''issue_id'', Uuid (issue_uuid L))]"

definition delete_old_component :: "locals \<Rightarrow> stmt" where
  "delete_old_component L =
     Delete issues_by_component
       [(''project_id'', Uuid (project_uuid L)), (''component'', old_component L),
        (''created_at'', created_at L), (''issue_id'', Uuid (issue_uuid L))]"

definition insert_new_component :: "locals \<Rightarrow> stmt" where
  "insert_new_component L =
     Insert issues_by_component
       [(''project_id'', Uuid (project_uuid L)), (''component'', new_component L),
        (''created_at'', created_at L), (''issue_id'', Uuid (issue_uuid L)),
        (''title'', new_title L), (''status'', new_status L),
        (''priority'', new_priority L), (''assignee_id'', new_assignee_id L)]"

definition update_component :: "locals \<Rightarrow> stmt" where
  "update_component L =
     Update issues_by_component
       [(''title'', new_title L), (''status'', new_status L),
        (''priority'', new_priority L), (''assignee_id'', new_assignee_id L)]
       [(''project_id'', Uuid (project_uuid L)), (''component'', new_component L),
        (''created_at'', created_at L), (''issue_id'', Uuid (issue_uuid L))]"

text \<open>
  The history loop: one insert per collected change, each with a freshly generated
  event id (\<open>gen n\<close> is the result of the \<open>n\<close>-th call of \<^verbatim>\<open>generate_uuid\<close>).
\<close>

definition history_insert :: "locals \<Rightarrow> val \<Rightarrow> uuid \<Rightarrow> change \<Rightarrow> stmt" where
  "history_insert L changed_by event_id c =
     (case c of (field_changed, old_value, new_value) \<Rightarrow>
        Insert issue_history
          [(''project_id'', Uuid (project_uuid L)), (''issue_id'', Uuid (issue_uuid L)),
           (''changed_at'', Timestamp (updated_at L)), (''event_id'', Uuid event_id),
           (''field_changed'', Text field_changed),
           (''old_value'', str_if_not_None old_value),
           (''new_value'', str_if_not_None new_value),
           (''changed_by'', changed_by)])"

definition history_writes :: "(nat \<Rightarrow> uuid) \<Rightarrow> locals \<Rightarrow> val \<Rightarrow> change list \<Rightarrow> stmt list" where
  "history_writes gen L changed_by changes =
     map (\<lambda>(n, c). history_insert L changed_by (gen n) c) (enumerate 0 changes)"

definition record_history ::
  "health \<Rightarrow> (nat \<Rightarrow> uuid) \<Rightarrow> row \<Rightarrow> locals \<Rightarrow> change list \<Rightarrow> stmt list \<times> (exn + health)" where
  "record_history h gen current_issue L changes =
     (if changes \<noteq> [] then
        (case getitem current_issue ''reporter_id'' of
           Inl e \<Rightarrow> ([], Inl e)
         | Inr changed_by \<Rightarrow> execute_all h (history_writes gen L changed_by changes))
      else ([], Inr h))"

definition respond :: "row \<Rightarrow> locals \<Rightarrow> exn + row" where
  "respond current_issue L =
     (case getitem current_issue ''reporter_id'' of
        Inl e \<Rightarrow> Inl e
      | Inr reporter_id \<Rightarrow>
          IssueResponse
            [(''issue_id'', Uuid (issue_uuid L)), (''project_id'', Uuid (project_uuid L)),
             (''title'', new_title L), (''description'', new_description L),
             (''status'', new_status L), (''priority'', new_priority L),
             (''assignee_id'', new_assignee_id L), (''reporter_id'', reporter_id),
             (''component'', new_component L), (''created_at'', created_at L),
             (''updated_at'', Timestamp (updated_at L))])"

text \<open>
  The part of a handler after its reads and checks: the table writes in program order,
  then the history loop, then the response. A failing statement ends the run; what was
  performed before it stays performed.
\<close>

definition run_update ::
  "health \<Rightarrow> (nat \<Rightarrow> uuid) \<Rightarrow> row \<Rightarrow> locals \<Rightarrow> stmt list \<Rightarrow> change list \<Rightarrow> stmt list \<times> (exn + row)" where
  "run_update h gen current_issue L writes changes =
     (case execute_all h writes of
        (performed, Inl e) \<Rightarrow> (performed, Inl e)
      | (performed, Inr h') \<Rightarrow>
          (case record_history h' gen current_issue L changes of
             (recorded, Inl e) \<Rightarrow> (performed @ recorded, Inl e)
           | (recorded, Inr h'') \<Rightarrow> (performed @ recorded, respond current_issue L)))"

section \<open>update_issue, first registration\<close>

text \<open>\<^verbatim>\<open>for row in result: if row['issue_id'] == issue_uuid: current_issue = row; break\<close>\<close>

fun find_issue :: "row list \<Rightarrow> uuid \<Rightarrow> exn + row option" where
  "find_issue [] issue = Inr None"
| "find_issue (r # rs) issue =
     (case getitem r ''issue_id'' of
        Inl e \<Rightarrow> Inl e
      | Inr v \<Rightarrow> if py_eq v (Uuid issue) then Inr (Some r) else find_issue rs issue)"

text \<open>
  The merge of the payload over the current row. The default argument of
  \<^verbatim>\<open>updated_fields.get(k, current_issue[k])\<close> is evaluated whether or not the payload has
  the key, so each of the columns is read, in this order.
\<close>

definition locals_first :: "row \<Rightarrow> row \<Rightarrow> uuid \<Rightarrow> uuid \<Rightarrow> timestamp \<Rightarrow> exn + locals" where
  "locals_first current_issue payload project issue now =
     bind_exn (getitem current_issue ''title'') (\<lambda>title.
     bind_exn (getitem current_issue ''description'') (\<lambda>description.
     bind_exn (getitem current_issue ''status'') (\<lambda>status.
     bind_exn (getitem current_issue ''priority'') (\<lambda>priority.
     bind_exn (getitem current_issue ''assignee_id'') (\<lambda>assignee_id.
     bind_exn (getitem current_issue ''component'') (\<lambda>component.
     bind_exn (getitem current_issue ''created_at'') (\<lambda>created.
       Inr \<lparr>project_uuid = project, issue_uuid = issue, updated_fields = payload,
            created_at = created, updated_at = now,
            old_title = title, old_description = description, old_status = status,
            old_priority = priority, old_assignee_id = assignee_id,
            old_component = component,
            new_title = dict_get payload ''title'' title,
            new_description = dict_get payload ''description'' description,
            new_status = dict_get payload ''status'' status,
            new_priority = dict_get payload ''priority'' priority,
            new_assignee_id = dict_get payload ''assignee_id'' assignee_id,
            new_component = dict_get payload ''component'' component\<rparr>)))))))"

definition sync_status_first :: "locals \<Rightarrow> stmt list" where
  "sync_status_first L =
     (if has_key (updated_fields L) ''status''
      then [delete_old_status L, insert_new_status L]
      else [update_status L (old_status L)])"

definition sync_priority_first :: "locals \<Rightarrow> stmt list" where
  "sync_priority_first L =
     (if has_key (updated_fields L) ''priority''
      then [delete_old_priority L, insert_new_priority L]
      else [update_priority L (old_priority L)])"

definition sync_assignee_first :: "locals \<Rightarrow> stmt list" where
  "sync_assignee_first L =
     (let assignee_changed = has_key (updated_fields L) ''assignee_id'';
          status_changed = has_key (updated_fields L) ''status''
      in if assignee_changed \<or> status_changed
         then (if truthy (old_assignee_id L) then [delete_old_assignee L] else []) @
              (if truthy (new_assignee_id L) then [insert_new_assignee L] else [])
         else (if truthy (new_assignee_id L) then [update_assignee L] else []))"

definition sync_component_first :: "locals \<Rightarrow> stmt list" where
  "sync_component_first L =
     (if has_key (updated_fields L) ''component''
      then (if truthy (old_component L) then [delete_old_component L] else []) @
           (if truthy (new_component L) then [insert_new_component L] else [])
      else (if truthy (new_component L) then [update_component L] else []))"

definition writes_first :: "locals \<Rightarrow> stmt list" where
  "writes_first L =
     update_main L @ sync_status_first L @ sync_priority_first L @
     sync_assignee_first L @ sync_component_first L"

definition changes_first :: "locals \<Rightarrow> change list" where
  "changes_first L =
     (if has_key (updated_fields L) ''status''
      then [(''status'', old_status L, new_status L)] else []) @
     (if has_key (updated_fields L) ''priority''
      then [(''priority'', old_priority L, new_priority L)] else []) @
     (if has_key (updated_fields L) ''assignee_id''
      then [(''assignee_id'', str_if_truthy (old_assignee_id L), str_if_truthy (new_assignee_id L))]
      else []) @
     (if has_key (updated_fields L) ''component''
      then [(''component'', old_component L, new_component L)] else [])"

definition issue_not_found :: exn where
  "issue_not_found = HTTPException 404 ''Issue not found''"

definition no_fields_to_update :: exn where
  "no_fields_to_update = HTTPException 400 ''No fields to update''"

text \<open>
  The \<^verbatim>\<open>try\<close> block up to its first write: the read of the project's rows, the search
  for the issue, the two checks and the merge. The two path parameters are taken as parsed
  UUIDs and the current time as a parameter. It raises, or yields the store, the current
  row and the local variables.
\<close>

definition read_first ::
  "db \<Rightarrow> health \<Rightarrow> timestamp \<Rightarrow> uuid \<Rightarrow> uuid \<Rightarrow> IssueUpdate \<Rightarrow> exn + (health \<times> row \<times> locals)" where
  "read_first d h now project issue issue_update =
     bind_exn (tick h) (\<lambda>h1.
     bind_exn (find_issue (select_where d issues_by_project [(''project_id'', Uuid project)]) issue)
       (\<lambda>found.
          case found of
            None \<Rightarrow> Inl issue_not_found
          | Some current_issue \<Rightarrow>
              if current_issue = [] then Inl issue_not_found
              else if dict_exclude_unset issue_update = [] then Inl no_fields_to_update
              else
                bind_exn (locals_first current_issue (dict_exclude_unset issue_update) project issue now)
                  (\<lambda>L. Inr (h1, current_issue, L))))"

text \<open>The whole \<^verbatim>\<open>try\<close> block; the generated event ids are a parameter.\<close>

definition update_issue_first_try ::
  "db \<Rightarrow> health \<Rightarrow> (nat \<Rightarrow> uuid) \<Rightarrow> timestamp \<Rightarrow> uuid \<Rightarrow> uuid \<Rightarrow> IssueUpdate \<Rightarrow> stmt list \<times> (exn + row)" where
  "update_issue_first_try d h gen now project issue issue_update =
     (case read_first d h now project issue issue_update of
        Inl e \<Rightarrow> ([], Inl e)
      | Inr (h1, current_issue, L) \<Rightarrow>
          run_update h1 gen current_issue L (writes_first L) (changes_first L))"

definition update_issue_first ::
  "db \<Rightarrow> health \<Rightarrow> (nat \<Rightarrow> uuid) \<Rightarrow> timestamp \<Rightarrow> uuid \<Rightarrow> uuid \<Rightarrow> IssueUpdate \<Rightarrow> stmt list \<times> (exn + row)" where
  "update_issue_first d h gen now project issue issue_update =
     except_Exception ''Error updating issue: ''
       (update_issue_first_try d h gen now project issue issue_update)"

section \<open>update_issue, second registration\<close>

text \<open>\<^verbatim>\<open>component_row['component'] if component_row else None\<close>\<close>

definition current_component_of :: "row option \<Rightarrow> exn + val" where
  "current_component_of component_row =
     (case component_row of
        None \<Rightarrow> Inr Null
      | Some r \<Rightarrow> if r = [] then Inr Null else getitem r ''component'')"

definition locals_second :: "row \<Rightarrow> val \<Rightarrow> row \<Rightarrow> uuid \<Rightarrow> uuid \<Rightarrow> timestamp \<Rightarrow> exn + locals" where
  "locals_second current_issue current_component payload project issue now =
     bind_exn (getitem current_issue ''title'') (\<lambda>title.
     bind_exn (getitem current_issue ''description'') (\<lambda>description.
     bind_exn (getitem current_issue ''status'') (\<lambda>status.
     bind_exn (getitem current_issue ''priority'') (\<lambda>priority.
     bind_exn (getitem current_issue ''assignee_id'') (\<lambda>assignee_id.
     bind_exn (getitem current_issue ''created_at'') (\<lambda>created.
       Inr \<lparr>project_uuid = project, issue_uuid = issue, updated_fields = payload,
            created_at = created, updated_at = now,
            old_title = title, old_description = description, old_status = status,
            old_priority = priority, old_assignee_id = assignee_id,
            old_component = current_component,
            new_title = dict_get payload ''title'' title,
            new_description = dict_get payload ''description'' description,
            new_status =
              (if has_key payload ''status'' then dict_get payload ''status'' status else status),
            new_priority =
              (if has_key payload ''priority'' then dict_get payload ''priority'' priority
               else priority),
            new_assignee_id =
              (if has_key payload ''assignee_id''
               then dict_get payload ''assignee_id'' assignee_id else assignee_id),
            new_component =
              (if has_key payload ''component''
               then dict_get payload ''component'' current_component
               else current_component)\<rparr>))))))"

definition changes_second :: "locals \<Rightarrow> change list" where
  "changes_second L =
     (if has_key (updated_fields L) ''title'' \<and> \<not> py_eq (old_title L) (new_title L)
      then [(''title'', old_title L, new_title L)] else []) @
     (if has_key (updated_fields L) ''description'' \<and> \<not> py_eq (old_description L) (new_description L)
      then [(''description'', old_description L, new_description L)] else []) @
     (if has_key (updated_fields L) ''status'' \<and> \<not> py_eq (old_status L) (new_status L)
      then [(''status'', old_status L, new_status L)] else []) @
     (if has_key (updated_fields L) ''priority'' \<and> \<not> py_eq (old_priority L) (new_priority L)
      then [(''priority'', old_priority L, new_priority L)] else []) @
     (if has_key (updated_fields L) ''assignee_id''
      then (let old_assignee_str = str_if_truthy (old_assignee_id L);
                new_assignee_str = str_if_truthy (new_assignee_id L)
            in if \<not> py_eq old_assignee_str new_assignee_str
               then [(''assignee_id'', old_assignee_str, new_assignee_str)] else [])
      else []) @
     (if has_key (updated_fields L) ''component''
      then (let old_comp = self_if_truthy (old_component L);
                new_comp = self_if_truthy (new_component L)
            in if \<not> py_eq old_comp new_comp
               then [(''component'', old_comp, new_comp)] else [])
      else [])"

definition status_changed_second :: "locals \<Rightarrow> bool" where
  "status_changed_second L =
     (has_key (updated_fields L) ''status'' \<and> \<not> py_eq (old_status L) (new_status L))"

definition priority_changed_second :: "locals \<Rightarrow> bool" where
  "priority_changed_second L =
     (has_key (updated_fields L) ''priority'' \<and> \<not> py_eq (old_priority L) (new_priority L))"

definition sync_status_second :: "locals \<Rightarrow> stmt list" where
  "sync_status_second L =
     (if status_changed_second L
      then [delete_old_status L, insert_new_status L]
      else [update_status L (new_status L)])"

definition sync_priority_second :: "locals \<Rightarrow> stmt list" where
  "sync_priority_second L =
     (if priority_changed_second L
      then [delete_old_priority L, insert_new_priority L]
      else [update_priority L (new_priority L)])"

definition sync_assignee_second :: "locals \<Rightarrow> stmt list" where
  "sync_assignee_second L =
     (let assignee_changed = has_key (updated_fields L) ''assignee_id'';
          assignee_or_status_changed = (assignee_changed \<or> status_changed_second L)
      in if assignee_or_status_changed
         then (if truthy (old_assignee_id L) then [delete_old_assignee L] else []) @
              (if truthy (new_assignee_id L) then [insert_new_assignee L] else [])
         else (if truthy (new_assignee_id L) then [update_assignee L] else []))"

definition sync_component_second :: "locals \<Rightarrow> stmt list" where
  "sync_component_second L =
     (let component_changed = has_key (updated_fields L) ''component''
      in if component_changed
         then (if truthy (old_component L) then [delete_old_component L] else []) @
              (if truthy (new_component L) then [insert_new_component L] else [])
         else (if truthy (new_component L) then [update_component L] else []))"

definition writes_second :: "locals \<Rightarrow> stmt list" where
  "writes_second L =
     update_main L @ sync_status_second L @ sync_priority_second L @
     sync_assignee_second L @ sync_component_second L"

definition issue_key :: "uuid \<Rightarrow> uuid \<Rightarrow> row" where
  "issue_key project issue = [(''project_id'', Uuid project), (''issue_id'', Uuid issue)]"

text \<open>
  The \<^verbatim>\<open>try\<close> block up to its first write: the read of the current row
  (\<^verbatim>\<open>LIMIT 1\<close>, \<^verbatim>\<open>.one()\<close>), the not-found check, the read of the component, the
  empty-payload check and the merge.
\<close>

definition read_second ::
  "db \<Rightarrow> health \<Rightarrow> timestamp \<Rightarrow> uuid \<Rightarrow> uuid \<Rightarrow> IssueUpdate \<Rightarrow> exn + (health \<times> row \<times> locals)" where
  "read_second d h now project issue issue_update =
     bind_exn (tick h) (\<lambda>h1.
       case one (select_where d issues_by_project (issue_key project issue)) of
         None \<Rightarrow> Inl issue_not_found
       | Some current_issue \<Rightarrow>
           if current_issue = [] then Inl issue_not_found
           else
             bind_exn (tick h1) (\<lambda>h2.
             bind_exn (current_component_of
                         (one (select_where d issues_by_component (issue_key project issue))))
               (\<lambda>current_component.
                  if dict_exclude_unset issue_update = [] then Inl no_fields_to_update
                  else
                    bind_exn (locals_second current_issue current_component
                                (dict_exclude_unset issue_update) project issue now)
                      (\<lambda>L. Inr (h2, current_issue, L)))))"

definition update_issue_second_try ::
  "db \<Rightarrow> health \<Rightarrow> (nat \<Rightarrow> uuid) \<Rightarrow> timestamp \<Rightarrow> uuid \<Rightarrow> uuid \<Rightarrow> IssueUpdate \<Rightarrow> stmt list \<times> (exn + row)" where
  "update_issue_second_try d h gen now project issue issue_update =
     (case read_second d h now project issue issue_update of
        Inl e \<Rightarrow> ([], Inl e)
      | Inr (h2, current_issue, L) \<Rightarrow>
          run_update h2 gen current_issue L (writes_second L) (changes_second L))"

definition update_issue_second ::
  "db \<Rightarrow> health \<Rightarrow> (nat \<Rightarrow> uuid) \<Rightarrow> timestamp \<Rightarrow> uuid \<Rightarrow> uuid \<Rightarrow> IssueUpdate \<Rightarrow> stmt list \<times> (exn + row)" where
  "update_issue_second d h gen now project issue issue_update =
     except_Exception ''Error updating issue: ''
       (update_issue_second_try d h gen now project issue issue_update)"

section \<open>The route\<close>

text \<open>
  Both functions are registered for \<^verbatim>\<open>PUT /issues/{issue_id}\<close>. A statement about
  "the update operation" is a statement about either registration.
\<close>

datatype registration = First | Second

fun read_update ::
  "registration \<Rightarrow> db \<Rightarrow> health \<Rightarrow> timestamp \<Rightarrow> uuid \<Rightarrow> uuid \<Rightarrow> IssueUpdate \<Rightarrow> exn + (health \<times> row \<times> locals)" where
  "read_update First = read_first"
| "read_update Second = read_second"

fun update_issue_try ::
  "registration \<Rightarrow> db \<Rightarrow> health \<Rightarrow> (nat \<Rightarrow> uuid) \<Rightarrow> timestamp \<Rightarrow> uuid \<Rightarrow> uuid \<Rightarrow> IssueUpdate \<Rightarrow> stmt list \<times> (exn + row)" where
  "update_issue_try First = update_issue_first_try"
| "update_issue_try Second = update_issue_second_try"

fun update_issue ::
  "registration \<Rightarrow> db \<Rightarrow> health \<Rightarrow> (nat \<Rightarrow> uuid) \<Rightarrow> timestamp \<Rightarrow> uuid \<Rightarrow> uuid \<Rightarrow> IssueUpdate \<Rightarrow> stmt list \<times> (exn + row)" where
  "update_issue First = update_issue_first"
| "update_issue Second = update_issue_second"

fun writes_of :: "registration \<Rightarrow> locals \<Rightarrow> stmt list" where
  "writes_of First = writes_first"
| "writes_of Second = writes_second"

fun changes_of :: "registration \<Rightarrow> locals \<Rightarrow> change list" where
  "changes_of First = changes_first"
| "changes_of Second = changes_second"

section \<open>The effect of a statement on the store\<close>

text \<open>
  The primary keys are those of \<^verbatim>\<open>create_tables\<close> in \<^verbatim>\<open>database.py\<close>. An insert and
  an update both write the columns they name into the row with the given key, creating
  the row when there is none; a delete removes the rows its \<^verbatim>\<open>WHERE\<close> clause selects.
\<close>

definition override :: "row \<Rightarrow> row \<Rightarrow> row" where
  "override s r = map (\<lambda>(c, v). (c, dict_get s c v)) r @ filter (\<lambda>(c, v). \<not> has_key r c) s"

definition primary_key :: "table \<Rightarrow> string list" where
  "primary_key t =
     (case t of
        issues_by_project \<Rightarrow> [''project_id'', ''created_at'', ''issue_id'']
      | issues_by_status \<Rightarrow> [''project_id'', ''status'', ''created_at'', ''issue_id'']
      | issues_by_assignee \<Rightarrow> [''project_id'', ''assignee_id'', ''status'', ''created_at'', ''issue_id'']
      | issues_by_priority \<Rightarrow> [''project_id'', ''priority'', ''created_at'', ''issue_id'']
      | issues_by_component \<Rightarrow> [''project_id'', ''component'', ''created_at'', ''issue_id'']
      | issue_history \<Rightarrow> [''project_id'', ''issue_id'', ''changed_at'', ''event_id''])"

definition upsert :: "row \<Rightarrow> row \<Rightarrow> row \<Rightarrow> row list \<Rightarrow> row list" where
  "upsert key cols fresh rows =
     (if list_ex (matches key) rows
      then map (\<lambda>r. if matches key r then override cols r else r) rows
      else rows @ [fresh])"

fun apply_stmt :: "stmt \<Rightarrow> db \<Rightarrow> db" where
  "apply_stmt (Insert t r) d =
     d(t := upsert (filter (\<lambda>(c, v). c \<in> set (primary_key t)) r) r r (d t))"
| "apply_stmt (Update t s wh) d = d(t := upsert wh s (wh @ s) (d t))"
| "apply_stmt (Delete t wh) d = d(t := filter (\<lambda>r. \<not> matches wh r) (d t))"

definition apply_all :: "db \<Rightarrow> stmt list \<Rightarrow> db" where
  "apply_all d ws = foldl (\<lambda>d w. apply_stmt w d) d ws"

definition identity_of :: "row \<Rightarrow> val option \<times> val option \<times> val option \<times> val option" where
  "identity_of r =
     (map_of r ''project_id'', map_of r ''issue_id'', map_of r ''reporter_id'', map_of r ''created_at'')"

section \<open>Example data\<close>

text \<open>
  A row of issues_by_project with the columns the table has in \<^verbatim>\<open>database.py\<close>, a store
  that holds it, a payload with no field supplied, and a supply of event ids.
\<close>

definition stored_issue :: row where
  "stored_issue =
     [(''project_id'', Uuid ''p1''), (''created_at'', Timestamp ''t0''), (''issue_id'', Uuid ''i1''),
      (''title'', Text ''Login fails''), (''description'', Text ''Cannot log in''),
      (''status'', Text ''open''), (''priority'', Text ''medium''), (''assignee_id'', Null),
      (''reporter_id'', Uuid ''u9''), (''updated_at'', Timestamp ''t0'')]"

definition stored_db :: db where
  "stored_db t = (if t = issues_by_project then [stored_issue] else [])"

definition unset :: IssueUpdate where
  "unset = \<lparr>u_title = None, u_description = None, u_status = None, u_priority = None,
             u_assignee_id = None, u_component = None\<rparr>"

definition event_ids :: "nat \<Rightarrow> uuid" where
  "event_ids n = ''e'' @ decimal n"

definition title_update :: IssueUpdate where
  "title_update = unset\<lparr>u_title := Some (Some ''Login is broken'')\<rparr>"

definition title_locals :: locals where
  "title_locals =
     \<lparr>project_uuid = ''p1'', issue_uuid = ''i1'',
      updated_fields = [(''title'', Text ''Login is broken'')],
      created_at = Timestamp ''t0'', updated_at = ''t1'',
      old_title = Text ''Login fails'', old_description = Text ''Cannot log in'',
      old_status = Text ''open'', old_priority = Text ''medium'', old_assignee_id = Null,
      old_component = Null,
      new_title = Text ''Login is broken'', new_description = Text ''Cannot log in'',
      new_status = Text ''open'', new_priority = Text ''medium'', new_assignee_id = Null,
      new_component = Null\<rparr>"

definition event_field :: "stmt \<Rightarrow> val option" where
  "event_field w = (case w of Insert t r \<Rightarrow> map_of r ''field_changed'' | _ \<Rightarrow> None)"

definition event_values :: "stmt \<Rightarrow> val option \<times> val option" where
  "event_values w =
     (case w of Insert t r \<Rightarrow> (map_of r ''old_value'', map_of r ''new_value'') | _ \<Rightarrow> (None, None))"

definition events_of :: "string \<Rightarrow> stmt list \<Rightarrow> stmt list" where
  "events_of f ws = filter (\<lambda>w. event_field w = Some (Text f)) (on_table issue_history ws)"

definition changes_to :: "string \<Rightarrow> change list \<Rightarrow> change list" where
  "changes_to f cs = filter (\<lambda>(g, a, b). g = f) cs"

definition assign_update :: IssueUpdate where
  "assign_update = unset\<lparr>u_assignee_id := Some (Some ''u1'')\<rparr>"

definition assign_locals :: locals where
  "assign_locals =
     \<lparr>project_uuid = ''p1'', issue_uuid = ''i1'',
      updated_fields = [(''assignee_id'', Uuid ''u1'')],
      created_at = Timestamp ''t0'', updated_at = ''t1'',
      old_title = Text ''Login fails'', old_description = Text ''Cannot log in'',
      old_status = Text ''open'', old_priority = Text ''medium'', old_assignee_id = Null,
      old_component = Null,
      new_title = Text ''Login fails'', new_description = Text ''Cannot log in'',
      new_status = Text ''open'', new_priority = Text ''medium'', new_assignee_id = Uuid ''u1'',
      new_component = Null\<rparr>"

definition stored_issue_with_component :: row where
  "stored_issue_with_component = stored_issue @ [(''component'', Null)]"

definition stored_db_with_component :: db where
  "stored_db_with_component t = (if t = issues_by_project then [stored_issue_with_component] else [])"

definition same_status_update :: IssueUpdate where
  "same_status_update = unset\<lparr>u_status := Some (Some OPEN)\<rparr>"

definition same_title_update :: IssueUpdate where
  "same_title_update = unset\<lparr>u_title := Some (Some ''Login fails'')\<rparr>"







section \<open>Facts about the data-access layer\<close>

lemma execute_all_success:
  "execute_all h ws = (performed, Inr h') \<Longrightarrow> performed = ws"
proof (induction ws arbitrary: h performed)
  case Nil
  then show ?case by simp
next
  case (Cons w ws)
  then show ?case
    by (auto split: sum.splits prod.splits)
qed

lemma execute_all_Healthy: "execute_all Healthy ws = (ws, Inr Healthy)"
  by (induction ws) auto

lemma on_table_append: "on_table t (xs @ ys) = on_table t xs @ on_table t ys"
  by (simp add: on_table_def)


section \<open>Facts about the update handlers\<close>

lemma decimal_codes: "decimal 404 = ''404''" "decimal 400 = ''400''" "decimal 500 = ''500''"
  by code_simp+

lemmas read_defs =
  read_first_def read_second_def bind_exn_def issue_key_def select_where_def matches_def
  current_component_of_def getitem_def dict_exclude_unset_def locals_first_def locals_second_def
  issue_not_found_def no_fields_to_update_def

lemmas handler_defs =
  update_issue_first_def update_issue_first_try_def update_issue_second_def
  update_issue_second_try_def except_Exception_def

lemma history_writes_Nil: "history_writes gen L cb [] = []"
  by (simp add: history_writes_def enumerate_eq_zip)

lemma run_update_success:
  assumes "snd (run_update h gen cur L ws cs) = Inr r"
  shows "\<exists>cb. getitem cur ''reporter_id'' = Inr cb \<and>
              fst (run_update h gen cur L ws cs) = ws @ history_writes gen L cb cs"
proof -
  obtain pf res where ex: "execute_all h ws = (pf, res)"
    by (cases "execute_all h ws")
  show ?thesis
  proof (cases res)
    case (Inl e)
    with ex assms show ?thesis by (simp add: run_update_def)
  next
    case (Inr h')
    with ex have pf: "pf = ws" using execute_all_success by blast
    obtain rc res2 where rh: "record_history h' gen cur L cs = (rc, res2)"
      by (cases "record_history h' gen cur L cs")
    show ?thesis
    proof (cases res2)
      case (Inl e)
      with ex Inr rh assms show ?thesis by (simp add: run_update_def)
    next
      case (Inr h'')
      with ex \<open>res = Inr h'\<close> rh assms have rsp: "respond cur L = Inr r"
        by (simp add: run_update_def)
      then obtain cb where cb: "getitem cur ''reporter_id'' = Inr cb"
        by (cases "getitem cur ''reporter_id''") (simp_all add: respond_def)
      have "rc = history_writes gen L cb cs"
      proof (cases "cs = []")
        case True
        with rh show ?thesis by (simp add: record_history_def history_writes_Nil)
      next
        case False
        with rh cb Inr have "execute_all h' (history_writes gen L cb cs) = (rc, Inr h'')"
          by (simp add: record_history_def)
        then show ?thesis using execute_all_success by blast
      qed
      with ex \<open>res = Inr h'\<close> rh Inr pf cb show ?thesis
        by (simp add: run_update_def)
    qed
  qed
qed

lemma update_issue_read:
  assumes "snd (update_issue reg d h gen now p i u) = Inr r"
  shows "\<exists>h1 cur L. read_update reg d h now p i u = Inr (h1, cur, L)"
  using assms
  by (cases reg; cases "read_update reg d h now p i u")
     (auto simp: update_issue_first_def update_issue_first_try_def update_issue_second_def
        update_issue_second_try_def except_Exception_def)

lemma update_issue_success:
  assumes rd: "read_update reg d h now p i u = Inr (h1, cur, L)"
      and ok: "snd (update_issue reg d h gen now p i u) = Inr r"
  shows "\<exists>cb. getitem cur ''reporter_id'' = Inr cb \<and>
              fst (update_issue reg d h gen now p i u) =
                writes_of reg L @ history_writes gen L cb (changes_of reg L)"
proof -
  have run: "snd (run_update h1 gen cur L (writes_of reg L) (changes_of reg L)) = Inr r"
    using rd ok
    by (cases reg; cases "run_update h1 gen cur L (writes_of reg L) (changes_of reg L)")
       (auto simp: update_issue_first_def update_issue_first_try_def update_issue_second_def
          update_issue_second_try_def except_Exception_def split: sum.splits)
  have same: "fst (update_issue reg d h gen now p i u) =
                fst (run_update h1 gen cur L (writes_of reg L) (changes_of reg L))"
    using rd
    by (cases reg; cases "run_update h1 gen cur L (writes_of reg L) (changes_of reg L)")
       (auto simp: update_issue_first_def update_issue_first_try_def update_issue_second_def
          update_issue_second_try_def except_Exception_def split: sum.splits)
  from run_update_success [OF run] same show ?thesis by simp
qed

lemma empty_payload_read:
  assumes "dict_exclude_unset u = []"
  shows "\<exists>e. read_update reg d h now p i u = Inl e"
  using assms
  by (cases reg)
     (auto simp: read_first_def read_second_def bind_exn_def split: sum.splits option.splits)

lemma read_fail_update:
  assumes "read_update reg d h now p i u = Inl e"
  shows "update_issue reg d h gen now p i u =
           ([], Inl (HTTPException 500 (''Error updating issue: '' @ str_exn e)))"
    and "update_issue_try reg d h gen now p i u = ([], Inl e)"
  using assms
  by (cases reg; simp add: update_issue_first_def update_issue_first_try_def update_issue_second_def
        update_issue_second_try_def except_Exception_def)+

lemma surfaced_500:
  "(case snd (update_issue reg d h gen now p i u) of
      Inl e \<Rightarrow> status_code e = Some 500 | Inr r \<Rightarrow> True)"
  by (cases reg)
     (auto simp: update_issue_first_def update_issue_second_def except_Exception_def
        split: sum.splits prod.splits)

lemma apply_stmt_other: "stmt_table w \<noteq> t \<Longrightarrow> apply_stmt w d t = d t"
  by (cases w) auto

lemma apply_all_other: "on_table t ws = [] \<Longrightarrow> apply_all d ws t = d t"
proof (induction ws arbitrary: d)
  case Nil
  then show ?case by (simp add: apply_all_def)
next
  case (Cons w ws)
  from Cons.prems have w: "stmt_table w \<noteq> t" and rest: "on_table t ws = []"
    by (auto simp: on_table_def split: if_splits)
  have "apply_all d (w # ws) t = apply_all (apply_stmt w d) ws t"
    by (simp add: apply_all_def)
  also have "\<dots> = apply_stmt w d t" using Cons.IH [OF rest] .
  also have "\<dots> = d t" using w by (rule apply_stmt_other)
  finally show ?case .
qed

lemma map_of_map_values:
  "map_of (map (\<lambda>(c, v). (c, f c v)) r) k = map_option (f k) (map_of r k)"
  by (induction r) auto

lemma map_of_override_untouched:
  assumes "map_of s k = None"
  shows "map_of (override s r) k = map_of r k"
proof -
  have "map_of (filter (\<lambda>(c, v). \<not> has_key r c) s) k = None"
    using assms by (induction s) (auto split: if_splits)
  moreover have "map_of (map (\<lambda>(c, v). (c, dict_get s c v)) r) k = map_of r k"
    using assms by (cases "map_of r k") (simp_all add: map_of_map_values dict_get_def)
  ultimately show ?thesis
    by (simp add: override_def map_add_def split: option.splits)
qed

lemma on_table_history_writes:
  "t \<noteq> issue_history \<Longrightarrow> on_table t (history_writes gen L cb cs) = []"
  by (auto simp: on_table_def history_writes_def history_insert_def filter_empty_conv split: prod.splits)

lemmas stmt_defs =
  update_main_def delete_old_status_def insert_new_status_def update_status_def
  delete_old_priority_def insert_new_priority_def update_priority_def
  delete_old_assignee_def insert_new_assignee_def update_assignee_def
  delete_old_component_def insert_new_component_def update_component_def

lemmas sync_defs =
  writes_first_def writes_second_def
  sync_status_first_def sync_priority_first_def sync_assignee_first_def sync_component_first_def
  sync_status_second_def sync_priority_second_def sync_assignee_second_def sync_component_second_def

lemma on_table_project_writes:
  "on_table issues_by_project (writes_of reg L) = update_main L"
  by (cases reg) (simp_all add: on_table_def sync_defs stmt_defs Let_def)

lemma writes_of_split:
  "\<exists>rest. writes_of reg L = update_main L @ rest \<and> on_table issues_by_project rest = []"
  by (cases reg) (simp_all add: on_table_def sync_defs stmt_defs Let_def)

lemma py_eq_Uuid: "py_eq v (Uuid x) \<Longrightarrow> v = Uuid x"
  by (cases v) (simp_all add: py_eq_def)

lemma find_issue_Some:
  assumes "find_issue rows i = Inr (Some cur)"
  shows "cur \<in> set rows \<and> map_of cur ''issue_id'' = Some (Uuid i)"
  using assms
proof (induction rows)
  case Nil
  then show ?case by simp
next
  case (Cons r rows)
  then show ?case
    by (auto simp: getitem_def split: option.splits if_splits dest: py_eq_Uuid)
qed

lemma one_Some: "one rows = Some r \<Longrightarrow> r \<in> set rows"
  by (cases rows) auto

lemma getitem_Inr: "getitem r k = Inr v \<longleftrightarrow> map_of r k = Some v"
  by (simp add: getitem_def split: option.splits)

lemma read_update_current:
  assumes "read_update reg d h now p i u = Inr (h1, cur, L)"
  shows "cur \<in> set (d issues_by_project)"
    and "map_of cur ''project_id'' = Some (Uuid p)"
    and "map_of cur ''issue_id'' = Some (Uuid i)"
    and "map_of cur ''created_at'' = Some (created_at L)"
    and "project_uuid L = p" and "issue_uuid L = i" and "updated_at L = now"
    and "updated_fields L = dict_exclude_unset u"
proof -
  have "cur \<in> set (d issues_by_project) \<and> map_of cur ''project_id'' = Some (Uuid p)
        \<and> map_of cur ''issue_id'' = Some (Uuid i) \<and> map_of cur ''created_at'' = Some (created_at L)
        \<and> project_uuid L = p \<and> issue_uuid L = i \<and> updated_at L = now
        \<and> updated_fields L = dict_exclude_unset u"
  proof (cases reg)
    case First
    with assms obtain h0 where
      f: "find_issue (select_where d issues_by_project [(''project_id'', Uuid p)]) i = Inr (Some cur)"
      and l: "locals_first cur (dict_exclude_unset u) p i now = Inr L"
      by (auto simp: read_first_def bind_exn_def split: sum.splits option.splits if_splits)
    from find_issue_Some [OF f] have "cur \<in> set (d issues_by_project)"
      "map_of cur ''project_id'' = Some (Uuid p)" "map_of cur ''issue_id'' = Some (Uuid i)"
      by (auto simp: select_where_def matches_def)
    moreover from l have "map_of cur ''created_at'' = Some (created_at L) \<and> project_uuid L = p
         \<and> issue_uuid L = i \<and> updated_at L = now \<and> updated_fields L = dict_exclude_unset u"
      by (auto simp: locals_first_def bind_exn_def getitem_Inr split: sum.splits)
    ultimately show ?thesis by simp
  next
    case Second
    with assms obtain comp where
      f: "one (select_where d issues_by_project (issue_key p i)) = Some cur"
      and l: "locals_second cur comp (dict_exclude_unset u) p i now = Inr L"
      by (auto simp: read_second_def bind_exn_def split: sum.splits option.splits if_splits)
    from one_Some [OF f] have "cur \<in> set (d issues_by_project)"
      "map_of cur ''project_id'' = Some (Uuid p)" "map_of cur ''issue_id'' = Some (Uuid i)"
      by (auto simp: select_where_def matches_def issue_key_def)
    moreover from l have "map_of cur ''created_at'' = Some (created_at L) \<and> project_uuid L = p
         \<and> issue_uuid L = i \<and> updated_at L = now \<and> updated_fields L = dict_exclude_unset u"
      by (auto simp: locals_second_def bind_exn_def getitem_Inr split: sum.splits)
    ultimately show ?thesis by simp
  qed
  then show "cur \<in> set (d issues_by_project)"
    and "map_of cur ''project_id'' = Some (Uuid p)"
    and "map_of cur ''issue_id'' = Some (Uuid i)"
    and "map_of cur ''created_at'' = Some (created_at L)"
    and "project_uuid L = p" and "issue_uuid L = i" and "updated_at L = now"
    and "updated_fields L = dict_exclude_unset u"
    by simp_all
qed

lemma apply_all_append: "apply_all d (xs @ ys) = apply_all (apply_all d xs) ys"
  by (simp add: apply_all_def)

lemma identity_of_override:
  assumes "map_of s ''project_id'' = None" "map_of s ''issue_id'' = None"
          "map_of s ''reporter_id'' = None" "map_of s ''created_at'' = None"
  shows "identity_of (override s r) = identity_of r"
  using assms by (simp add: identity_of_def map_of_override_untouched)

lemma update_main_effect:
  assumes cur: "cur \<in> set (d issues_by_project)"
      and m: "matches [(''project_id'', Uuid (project_uuid L)), (''created_at'', created_at L),
                       (''issue_id'', Uuid (issue_uuid L))] cur"
  shows "map identity_of (apply_all d (update_main L) issues_by_project) =
           map identity_of (d issues_by_project)"
proof -
  let ?wh = "[(''project_id'', Uuid (project_uuid L)), (''created_at'', created_at L),
              (''issue_id'', Uuid (issue_uuid L))]"
  let ?s = "[(''title'', new_title L), (''description'', new_description L),
             (''status'', new_status L), (''priority'', new_priority L),
             (''assignee_id'', new_assignee_id L), (''updated_at'', Timestamp (updated_at L))]"
  have ex: "list_ex (matches ?wh) (d issues_by_project)"
    using cur m by (auto simp: list_ex_iff)
  have "apply_all d (update_main L) issues_by_project =
          map (\<lambda>r. if matches ?wh r then override ?s r else r) (d issues_by_project)"
    using ex by (simp add: apply_all_def update_main_def upsert_def)
  moreover have "identity_of (if matches ?wh r then override ?s r else r) = identity_of r" for r
    by (simp add: identity_of_override)
  ultimately show ?thesis by (simp add: comp_def)
qed

lemma read_title_update:
  "read_update Second stored_db Healthy ''t1'' ''p1'' ''i1'' title_update =
     Inr (Healthy, stored_issue, title_locals)"
  by (simp add: read_defs stored_db_def stored_issue_def unset_def title_update_def title_locals_def
        dict_get_def has_key_def)

lemmas run_defs =
  run_update_def record_history_def respond_def execute_all_Healthy history_writes_def
  history_insert_def IssueResponse_def IssueResponse_fields_def is_uuid_def is_str_def
  is_datetime_def is_enum_def optional_def Status_values_def Priority_values_def
  changes_first_def changes_second_def status_changed_second_def priority_changed_second_def
  str_if_truthy_def self_if_truthy_def str_if_not_None_def py_eq_def has_key_def dict_get_def
  getitem_def

lemma run_title_update:
  "snd (update_issue Second stored_db Healthy event_ids ''t1'' ''p1'' ''i1'' title_update) =
     Inr [(''issue_id'', Uuid ''i1''), (''project_id'', Uuid ''p1''),
          (''title'', Text ''Login is broken''), (''description'', Text ''Cannot log in''),
          (''status'', Text ''open''), (''priority'', Text ''medium''), (''assignee_id'', Null),
          (''reporter_id'', Uuid ''u9''), (''component'', Null),
          (''created_at'', Timestamp ''t0''), (''updated_at'', Timestamp ''t1'')]"
  using read_title_update
  by (simp add: update_issue_second_def update_issue_second_try_def except_Exception_def
        run_defs sync_defs stmt_defs title_locals_def stored_issue_def Let_def)

lemma map_of_field_item:
  "map_of (field_item k f x) k' = (if k' = k then map_option (opt_val f) x else None)"
  by (cases x) auto

lemma payload_lookup:
  "map_of (dict_exclude_unset u) ''title'' = map_option (opt_val Text) (u_title u)"
  "map_of (dict_exclude_unset u) ''description'' = map_option (opt_val Text) (u_description u)"
  "map_of (dict_exclude_unset u) ''status'' = map_option (opt_val status_member) (u_status u)"
  "map_of (dict_exclude_unset u) ''priority'' = map_option (opt_val priority_member) (u_priority u)"
  "map_of (dict_exclude_unset u) ''assignee_id'' = map_option (opt_val Uuid) (u_assignee_id u)"
  "map_of (dict_exclude_unset u) ''component'' = map_option (opt_val Text) (u_component u)"
  by (simp_all add: dict_exclude_unset_def map_of_field_item map_add_def split: option.splits)

lemma event_values_history:
  "map event_values
     (filter (\<lambda>w. event_field w = Some (Text f))
        (map (\<lambda>(n, c). history_insert L cb (gen n) c) (enumerate k cs))) =
   map (\<lambda>(g, a, b). (Some (str_if_not_None a), Some (str_if_not_None b))) (changes_to f cs)"
  by (induction cs arbitrary: k)
     (auto simp: event_field_def event_values_def history_insert_def changes_to_def)

lemma on_table_history_self:
  "on_table issue_history (history_writes gen L cb cs) = history_writes gen L cb cs"
  by (auto simp: on_table_def history_writes_def history_insert_def filter_id_conv split: prod.splits)

lemma on_table_history_writes_of: "on_table issue_history (writes_of reg L) = []"
  by (cases reg) (simp_all add: on_table_def sync_defs stmt_defs Let_def)

lemma events_of_performed:
  assumes "ws = writes_of reg L @ history_writes gen L cb cs"
  shows "map event_values (events_of f ws) =
           map (\<lambda>(g, a, b). (Some (str_if_not_None a), Some (str_if_not_None b))) (changes_to f cs)"
  unfolding assms events_of_def
  by (simp add: on_table_append on_table_history_writes_of on_table_history_self)
     (simp add: history_writes_def event_values_history)

lemma bind_exn_Inr: "bind_exn m f = Inr y \<Longrightarrow> \<exists>x. m = Inr x \<and> f x = Inr y"
  by (cases m) (simp_all add: bind_exn_def)

lemma if_has_key: "(if has_key d k then dict_get d k v else v) = dict_get d k v"
  by (simp add: has_key_def dict_get_def split: option.splits)

lemma locals_first_fields:
  assumes "locals_first cur pl p i now = Inr L"
  shows "\<exists>title description status priority assignee component created.
           map_of cur ''title'' = Some title \<and> map_of cur ''description'' = Some description \<and>
           map_of cur ''status'' = Some status \<and> map_of cur ''priority'' = Some priority \<and>
           map_of cur ''assignee_id'' = Some assignee \<and> map_of cur ''component'' = Some component \<and>
           map_of cur ''created_at'' = Some created \<and>
           L = \<lparr>project_uuid = p, issue_uuid = i, updated_fields = pl,
                created_at = created, updated_at = now,
                old_title = title, old_description = description, old_status = status,
                old_priority = priority, old_assignee_id = assignee, old_component = component,
                new_title = dict_get pl ''title'' title,
                new_description = dict_get pl ''description'' description,
                new_status = dict_get pl ''status'' status,
                new_priority = dict_get pl ''priority'' priority,
                new_assignee_id = dict_get pl ''assignee_id'' assignee,
                new_component = dict_get pl ''component'' component\<rparr>"
  using assms unfolding locals_first_def
  by (auto dest!: bind_exn_Inr simp: getitem_Inr)

lemma locals_second_fields:
  assumes "locals_second cur cc pl p i now = Inr L"
  shows "\<exists>title description status priority assignee created.
           map_of cur ''title'' = Some title \<and> map_of cur ''description'' = Some description \<and>
           map_of cur ''status'' = Some status \<and> map_of cur ''priority'' = Some priority \<and>
           map_of cur ''assignee_id'' = Some assignee \<and>
           map_of cur ''created_at'' = Some created \<and>
           L = \<lparr>project_uuid = p, issue_uuid = i, updated_fields = pl,
                created_at = created, updated_at = now,
                old_title = title, old_description = description, old_status = status,
                old_priority = priority, old_assignee_id = assignee, old_component = cc,
                new_title = dict_get pl ''title'' title,
                new_description = dict_get pl ''description'' description,
                new_status = dict_get pl ''status'' status,
                new_priority = dict_get pl ''priority'' priority,
                new_assignee_id = dict_get pl ''assignee_id'' assignee,
                new_component = dict_get pl ''component'' cc\<rparr>"
  using assms unfolding locals_second_def
  by (auto dest!: bind_exn_Inr simp: getitem_Inr if_has_key)

lemma read_update_locals:
  assumes "read_update reg d h now p i u = Inr (h1, cur, L)"
  shows "map_of cur ''title'' = Some (old_title L)"
    and "map_of cur ''description'' = Some (old_description L)"
    and "map_of cur ''status'' = Some (old_status L)"
    and "map_of cur ''priority'' = Some (old_priority L)"
    and "map_of cur ''assignee_id'' = Some (old_assignee_id L)"
    and "new_title L = dict_get (dict_exclude_unset u) ''title'' (old_title L)"
    and "new_description L = dict_get (dict_exclude_unset u) ''description'' (old_description L)"
    and "new_status L = dict_get (dict_exclude_unset u) ''status'' (old_status L)"
    and "new_priority L = dict_get (dict_exclude_unset u) ''priority'' (old_priority L)"
    and "new_assignee_id L = dict_get (dict_exclude_unset u) ''assignee_id'' (old_assignee_id L)"
    and "new_component L = dict_get (dict_exclude_unset u) ''component'' (old_component L)"
proof -
  have "map_of cur ''title'' = Some (old_title L)
      \<and> map_of cur ''description'' = Some (old_description L)
      \<and> map_of cur ''status'' = Some (old_status L)
      \<and> map_of cur ''priority'' = Some (old_priority L)
      \<and> map_of cur ''assignee_id'' = Some (old_assignee_id L)
      \<and> new_title L = dict_get (dict_exclude_unset u) ''title'' (old_title L)
      \<and> new_description L = dict_get (dict_exclude_unset u) ''description'' (old_description L)
      \<and> new_status L = dict_get (dict_exclude_unset u) ''status'' (old_status L)
      \<and> new_priority L = dict_get (dict_exclude_unset u) ''priority'' (old_priority L)
      \<and> new_assignee_id L = dict_get (dict_exclude_unset u) ''assignee_id'' (old_assignee_id L)
      \<and> new_component L = dict_get (dict_exclude_unset u) ''component'' (old_component L)"
  proof (cases reg)
    case First
    with assms have "\<exists>l. locals_first cur (dict_exclude_unset u) p i now = Inr l \<and> l = L"
      by (auto simp: read_first_def split: option.splits if_splits dest!: bind_exn_Inr)
    then have l: "locals_first cur (dict_exclude_unset u) p i now = Inr L" by simp
    from locals_first_fields [OF l] show ?thesis by auto
  next
    case Second
    with assms have "\<exists>cc. locals_second cur cc (dict_exclude_unset u) p i now = Inr L"
      by (auto simp: read_second_def split: option.splits if_splits dest!: bind_exn_Inr) blast
    then obtain cc where l: "locals_second cur cc (dict_exclude_unset u) p i now = Inr L" by auto
    from locals_second_fields [OF l] show ?thesis by auto
  qed
  then show "map_of cur ''title'' = Some (old_title L)"
    and "map_of cur ''description'' = Some (old_description L)"
    and "map_of cur ''status'' = Some (old_status L)"
    and "map_of cur ''priority'' = Some (old_priority L)"
    and "map_of cur ''assignee_id'' = Some (old_assignee_id L)"
    and "new_title L = dict_get (dict_exclude_unset u) ''title'' (old_title L)"
    and "new_description L = dict_get (dict_exclude_unset u) ''description'' (old_description L)"
    and "new_status L = dict_get (dict_exclude_unset u) ''status'' (old_status L)"
    and "new_priority L = dict_get (dict_exclude_unset u) ''priority'' (old_priority L)"
    and "new_assignee_id L = dict_get (dict_exclude_unset u) ''assignee_id'' (old_assignee_id L)"
    and "new_component L = dict_get (dict_exclude_unset u) ''component'' (old_component L)"
    by simp_all
qed

lemma read_assign_update:
  "read_update Second stored_db Healthy ''t1'' ''p1'' ''i1'' assign_update =
     Inr (Healthy, stored_issue, assign_locals)"
  by (simp add: read_defs stored_db_def stored_issue_def unset_def assign_update_def
        assign_locals_def dict_get_def has_key_def)

lemma run_assign_update:
  "snd (update_issue Second stored_db Healthy event_ids ''t1'' ''p1'' ''i1'' assign_update) =
     Inr [(''issue_id'', Uuid ''i1''), (''project_id'', Uuid ''p1''),
          (''title'', Text ''Login fails''), (''description'', Text ''Cannot log in''),
          (''status'', Text ''open''), (''priority'', Text ''medium''),
          (''assignee_id'', Uuid ''u1''),
          (''reporter_id'', Uuid ''u9''), (''component'', Null),
          (''created_at'', Timestamp ''t0''), (''updated_at'', Timestamp ''t1'')]"
  using read_assign_update
  by (simp add: update_issue_second_def update_issue_second_try_def except_Exception_def
        run_defs sync_defs stmt_defs assign_locals_def stored_issue_def Let_def)

lemma read_assign_update_first:
  "read_update First stored_db_with_component Healthy ''t1'' ''p1'' ''i1'' assign_update =
     Inr (Healthy, stored_issue_with_component, assign_locals)"
  by (simp add: read_defs stored_db_with_component_def stored_issue_with_component_def
        stored_issue_def unset_def assign_update_def assign_locals_def dict_get_def has_key_def
        py_eq_def)

lemma run_assign_update_first:
  "snd (update_issue First stored_db_with_component Healthy event_ids ''t1'' ''p1'' ''i1'' assign_update) =
     Inr [(''issue_id'', Uuid ''i1''), (''project_id'', Uuid ''p1''),
          (''title'', Text ''Login fails''), (''description'', Text ''Cannot log in''),
          (''status'', Text ''open''), (''priority'', Text ''medium''),
          (''assignee_id'', Uuid ''u1''),
          (''reporter_id'', Uuid ''u9''), (''component'', Null),
          (''created_at'', Timestamp ''t0''), (''updated_at'', Timestamp ''t1'')]"
  using read_assign_update_first
  by (simp add: update_issue_first_def update_issue_first_try_def except_Exception_def
        run_defs sync_defs stmt_defs assign_locals_def stored_issue_with_component_def
        stored_issue_def Let_def)

lemmas example_defs =
  stored_db_def stored_issue_def stored_db_with_component_def stored_issue_with_component_def
  unset_def title_update_def assign_update_def same_status_update_def same_title_update_def
  status_member_def priority_member_def

lemmas eval_defs =
  handler_defs read_defs run_defs sync_defs stmt_defs example_defs Let_def on_table_def
  events_of_def event_field_def event_values_def



lemma py_eq_refl: "py_eq v v"
  by (simp add: py_eq_def)




lemma status_priority_written:
  "on_table issues_by_status (writes_of reg L) \<noteq> []"
  "on_table issues_by_priority (writes_of reg L) \<noteq> []"
  by (cases reg; simp add: on_table_def sync_defs stmt_defs Let_def)+

lemma execute_all_subset: "set (fst (execute_all h ws)) \<subseteq> set ws"
proof (induction ws arbitrary: h)
  case Nil
  then show ?case by simp
next
  case (Cons w ws)
  show ?case
  proof (cases "tick h")
    case (Inl e)
    then show ?thesis by simp
  next
    case (Inr h')
    obtain pf res where ex: "execute_all h' ws = (pf, res)" by (cases "execute_all h' ws")
    with Cons.IH [of h'] have "set pf \<subseteq> set ws" by simp
    with Inr ex show ?thesis by auto
  qed
qed

lemma run_update_subset:
  assumes "w \<in> set (fst (run_update h gen cur L ws cs))"
  shows "w \<in> set ws \<or> (\<exists>cb. w \<in> set (history_writes gen L cb cs))"
proof -
  obtain pf res where ex: "execute_all h ws = (pf, res)" by (cases "execute_all h ws")
  have pf: "set pf \<subseteq> set ws" using execute_all_subset [of h ws] ex by simp
  show ?thesis
  proof (cases res)
    case (Inl e)
    with ex assms pf show ?thesis by (auto simp: run_update_def)
  next
    case (Inr h')
    obtain rc res2 where rh: "record_history h' gen cur L cs = (rc, res2)"
      by (cases "record_history h' gen cur L cs")
    have rc: "rc = [] \<or> (\<exists>cb. set rc \<subseteq> set (history_writes gen L cb cs))"
    proof (cases "cs \<noteq> [] \<and> (\<exists>cb. getitem cur ''reporter_id'' = Inr cb)")
      case True
      then obtain cb where cb: "getitem cur ''reporter_id'' = Inr cb" by blast
      with True rh have "execute_all h' (history_writes gen L cb cs) = (rc, res2)"
        by (simp add: record_history_def)
      with execute_all_subset [of h' "history_writes gen L cb cs"] show ?thesis by auto
    next
      case False
      with rh have "rc = []"
        by (cases "getitem cur ''reporter_id''") (auto simp: record_history_def split: if_splits)
      then show ?thesis by simp
    qed
    from ex Inr rh assms have "w \<in> set pf \<or> w \<in> set rc"
      by (cases res2) (auto simp: run_update_def)
    with pf rc show ?thesis by auto
  qed
qed

lemma history_field_in_changes:
  assumes "w \<in> set (history_writes gen L cb cs)"
  shows "\<exists>f a b. (f, a, b) \<in> set cs \<and> event_field w = Some (Text f)"
proof -
  from assms obtain n c where "(n, c) \<in> set (enumerate 0 cs)" "w = history_insert L cb (gen n) c"
    by (auto simp: history_writes_def)
  moreover then have "c \<in> set cs" by (auto simp: in_set_enumerate_eq)
  ultimately show ?thesis
    by (cases c) (auto simp: history_insert_def event_field_def)
qed

lemma changes_first_fields:
  assumes "(f, a, b) \<in> set (changes_first L)"
  shows "f \<in> set [''status'', ''priority'', ''assignee_id'', ''component'']"
  using assms by (auto simp: changes_first_def split: if_splits)

lemma writes_of_not_history: "w \<in> set (writes_of reg L) \<Longrightarrow> stmt_table w \<noteq> issue_history"
  using on_table_history_writes_of [of reg L]
  by (auto simp: on_table_def filter_empty_conv)

lemma first_history_fields:
  "list_all (\<lambda>w. event_field w \<in> set (map (\<lambda>f. Some (Text f))
                     [''status'', ''priority'', ''assignee_id'', ''component'']))
     (on_table issue_history (fst (update_issue First d h gen now p i u)))"
proof -
  have "event_field w \<in> set (map (\<lambda>f. Some (Text f))
                     [''status'', ''priority'', ''assignee_id'', ''component''])"
    if w: "w \<in> set (fst (update_issue First d h gen now p i u))"
      and t: "stmt_table w = issue_history" for w
  proof (cases "read_first d h now p i u")
    case (Inl e)
    with w show ?thesis
      by (simp add: update_issue_first_def update_issue_first_try_def except_Exception_def)
  next
    case (Inr x)
    then obtain h1 cur L where x: "read_first d h now p i u = Inr (h1, cur, L)"
      by (cases x) auto
    have "fst (update_issue First d h gen now p i u) =
            fst (run_update h1 gen cur L (writes_first L) (changes_first L))"
      using x
      by (cases "run_update h1 gen cur L (writes_first L) (changes_first L)")
         (auto simp: update_issue_first_def update_issue_first_try_def except_Exception_def
            split: sum.splits)
    with w have "w \<in> set (writes_first L) \<or>
                 (\<exists>cb. w \<in> set (history_writes gen L cb (changes_first L)))"
      using run_update_subset by simp
    moreover have "w \<notin> set (writes_first L)"
      using writes_of_not_history [of w First L] t by auto
    ultimately obtain cb where "w \<in> set (history_writes gen L cb (changes_first L))" by blast
    from history_field_in_changes [OF this] changes_first_fields show ?thesis by fastforce
  qed
  then show ?thesis by (auto simp: list_all_iff on_table_def)
qed

lemma dict_get_absent: "\<not> has_key d k \<Longrightarrow> dict_get d k v = v"
  by (simp add: has_key_def dict_get_def)

lemma payload_has_key:
  "has_key (dict_exclude_unset u) ''title'' \<longleftrightarrow> u_title u \<noteq> None"
  "has_key (dict_exclude_unset u) ''description'' \<longleftrightarrow> u_description u \<noteq> None"
  "has_key (dict_exclude_unset u) ''status'' \<longleftrightarrow> u_status u \<noteq> None"
  "has_key (dict_exclude_unset u) ''priority'' \<longleftrightarrow> u_priority u \<noteq> None"
  "has_key (dict_exclude_unset u) ''assignee_id'' \<longleftrightarrow> u_assignee_id u \<noteq> None"
  "has_key (dict_exclude_unset u) ''component'' \<longleftrightarrow> u_component u \<noteq> None"
  by (simp_all add: has_key_def payload_lookup)

lemma event_count:
  assumes "ws = writes_of reg L @ history_writes gen L cb cs"
  shows "length (events_of f ws) = length (changes_to f cs)"
proof -
  have "length (map event_values (events_of f ws)) =
          length (map (\<lambda>(g, a, b). (Some (str_if_not_None a), Some (str_if_not_None b)))
                    (changes_to f cs))"
    using events_of_performed [OF assms, of f] by simp
  then show ?thesis by simp
qed

lemma first_event_counts:
  assumes rd: "read_update First d h now p i u = Inr (h1, cur, L)"
      and ok: "snd (update_issue First d h gen now p i u) = Inr r"
  shows "length (events_of ''title'' (fst (update_issue First d h gen now p i u))) = 0"
    and "length (events_of ''description'' (fst (update_issue First d h gen now p i u))) = 0"
    and "length (events_of ''status'' (fst (update_issue First d h gen now p i u))) =
           (if u_status u = None then 0 else 1)"
    and "length (events_of ''priority'' (fst (update_issue First d h gen now p i u))) =
           (if u_priority u = None then 0 else 1)"
    and "length (events_of ''assignee_id'' (fst (update_issue First d h gen now p i u))) =
           (if u_assignee_id u = None then 0 else 1)"
    and "length (events_of ''component'' (fst (update_issue First d h gen now p i u))) =
           (if u_component u = None then 0 else 1)"
proof -
  note c = read_update_current [OF rd]
  from update_issue_success [OF rd ok] obtain cb where
    pf: "fst (update_issue First d h gen now p i u) =
           writes_of First L @ history_writes gen L cb (changes_of First L)"
    by blast
  note n = event_count [OF pf]
  show "length (events_of ''title'' (fst (update_issue First d h gen now p i u))) = 0"
    and "length (events_of ''description'' (fst (update_issue First d h gen now p i u))) = 0"
    and "length (events_of ''status'' (fst (update_issue First d h gen now p i u))) =
           (if u_status u = None then 0 else 1)"
    and "length (events_of ''priority'' (fst (update_issue First d h gen now p i u))) =
           (if u_priority u = None then 0 else 1)"
    and "length (events_of ''assignee_id'' (fst (update_issue First d h gen now p i u))) =
           (if u_assignee_id u = None then 0 else 1)"
    and "length (events_of ''component'' (fst (update_issue First d h gen now p i u))) =
           (if u_component u = None then 0 else 1)"
    unfolding n
    by (simp_all add: changes_to_def changes_first_def c payload_has_key)
qed

lemma second_event_counts:
  assumes rd: "read_update Second d h now p i u = Inr (h1, cur, L)"
      and ok: "snd (update_issue Second d h gen now p i u) = Inr r"
  shows "length (events_of ''title'' (fst (update_issue Second d h gen now p i u))) =
           (if py_eq (old_title L) (new_title L) then 0 else 1)"
    and "length (events_of ''description'' (fst (update_issue Second d h gen now p i u))) =
           (if py_eq (old_description L) (new_description L) then 0 else 1)"
    and "length (events_of ''status'' (fst (update_issue Second d h gen now p i u))) =
           (if py_eq (old_status L) (new_status L) then 0 else 1)"
    and "length (events_of ''priority'' (fst (update_issue Second d h gen now p i u))) =
           (if py_eq (old_priority L) (new_priority L) then 0 else 1)"
    and "length (events_of ''assignee_id'' (fst (update_issue Second d h gen now p i u))) =
           (if py_eq (str_if_truthy (old_assignee_id L)) (str_if_truthy (new_assignee_id L))
            then 0 else 1)"
    and "length (events_of ''component'' (fst (update_issue Second d h gen now p i u))) =
           (if py_eq (self_if_truthy (old_component L)) (self_if_truthy (new_component L))
            then 0 else 1)"
proof -
  note c = read_update_current [OF rd]
  note l = read_update_locals [OF rd]
  from update_issue_success [OF rd ok] obtain cb where
    pf: "fst (update_issue Second d h gen now p i u) =
           writes_of Second L @ history_writes gen L cb (changes_of Second L)"
    by blast
  note n = event_count [OF pf]
  have k1: "\<not> has_key (updated_fields L) ''title'' \<Longrightarrow> new_title L = old_title L"
    and k2: "\<not> has_key (updated_fields L) ''description'' \<Longrightarrow> new_description L = old_description L"
    and k3: "\<not> has_key (updated_fields L) ''status'' \<Longrightarrow> new_status L = old_status L"
    and k4: "\<not> has_key (updated_fields L) ''priority'' \<Longrightarrow> new_priority L = old_priority L"
    and k5: "\<not> has_key (updated_fields L) ''assignee_id'' \<Longrightarrow> new_assignee_id L = old_assignee_id L"
    and k6: "\<not> has_key (updated_fields L) ''component'' \<Longrightarrow> new_component L = old_component L"
    using l by (simp_all add: c dict_get_absent)
  show "length (events_of ''title'' (fst (update_issue Second d h gen now p i u))) =
           (if py_eq (old_title L) (new_title L) then 0 else 1)"
    unfolding n using k1 by (auto simp: changes_to_def changes_second_def Let_def py_eq_refl)
  show "length (events_of ''description'' (fst (update_issue Second d h gen now p i u))) =
           (if py_eq (old_description L) (new_description L) then 0 else 1)"
    unfolding n using k2 by (auto simp: changes_to_def changes_second_def Let_def py_eq_refl)
  show "length (events_of ''status'' (fst (update_issue Second d h gen now p i u))) =
           (if py_eq (old_status L) (new_status L) then 0 else 1)"
    unfolding n using k3 by (auto simp: changes_to_def changes_second_def Let_def py_eq_refl)
  show "length (events_of ''priority'' (fst (update_issue Second d h gen now p i u))) =
           (if py_eq (old_priority L) (new_priority L) then 0 else 1)"
    unfolding n using k4 by (auto simp: changes_to_def changes_second_def Let_def py_eq_refl)
  show "length (events_of ''assignee_id'' (fst (update_issue Second d h gen now p i u))) =
           (if py_eq (str_if_truthy (old_assignee_id L)) (str_if_truthy (new_assignee_id L))
            then 0 else 1)"
    unfolding n using k5 by (auto simp: changes_to_def changes_second_def Let_def py_eq_refl)
  show "length (events_of ''component'' (fst (update_issue Second d h gen now p i u))) =
           (if py_eq (self_if_truthy (old_component L)) (self_if_truthy (new_component L))
            then 0 else 1)"
    unfolding n using k6 by (auto simp: changes_to_def changes_second_def Let_def py_eq_refl)
qed



lemma first_title_update_history:
  "on_table issue_history
     (fst (update_issue First stored_db Healthy event_ids ''t1'' ''p1'' ''i1'' title_update)) = []"
  by (simp add: eval_defs)

lemma second_title_update_history:
  "map event_field
     (on_table issue_history
        (fst (update_issue Second stored_db Healthy event_ids ''t1'' ''p1'' ''i1'' title_update))) =
   [Some (Text ''title'')]"
  by (simp add: eval_defs)

lemma read_same_status_update_first:
  "read_update First stored_db_with_component Healthy ''t1'' ''p1'' ''i1'' same_status_update =
     Inr (Healthy, stored_issue_with_component,
          \<lparr>project_uuid = ''p1'', issue_uuid = ''i1'',
           updated_fields = [(''status'', Member ''Status.OPEN'' ''open'')],
           created_at = Timestamp ''t0'', updated_at = ''t1'',
           old_title = Text ''Login fails'', old_description = Text ''Cannot log in'',
           old_status = Text ''open'', old_priority = Text ''medium'', old_assignee_id = Null,
           old_component = Null,
           new_title = Text ''Login fails'', new_description = Text ''Cannot log in'',
           new_status = Member ''Status.OPEN'' ''open'', new_priority = Text ''medium'',
           new_assignee_id = Null, new_component = Null\<rparr>)"
  by (simp add: read_defs example_defs dict_get_def has_key_def py_eq_def)

lemma run_same_status_update_first:
  "snd (update_issue First stored_db_with_component Healthy event_ids ''t1'' ''p1'' ''i1''
          same_status_update) =
     Inr [(''issue_id'', Uuid ''i1''), (''project_id'', Uuid ''p1''),
          (''title'', Text ''Login fails''), (''description'', Text ''Cannot log in''),
          (''status'', Member ''Status.OPEN'' ''open''), (''priority'', Text ''medium''),
          (''assignee_id'', Null), (''reporter_id'', Uuid ''u9''), (''component'', Null),
          (''created_at'', Timestamp ''t0''), (''updated_at'', Timestamp ''t1'')]"
  by (simp add: eval_defs)


lemma never_no_fields:
  "snd (update_issue reg d h gen now p i u) \<noteq> Inl no_fields_to_update"
  by (cases reg)
     (auto simp: update_issue_first_def update_issue_second_def except_Exception_def
        no_fields_to_update_def split: sum.splits prod.splits)

lemma assign_from_absent_where_returns:
  assumes rd: "read_update reg d h now p i u = Inr (h1, cur, L)"
      and ok: "snd (update_issue reg d h gen now p i u) = Inr r"
      and absent: "map_of cur ''assignee_id'' = Some Null"
      and supplied: "u_assignee_id u = Some (Some U1)"
  shows "on_table issues_by_assignee (fst (update_issue reg d h gen now p i u)) =
           [Insert issues_by_assignee
              [(''project_id'', Uuid p), (''assignee_id'', Uuid U1), (''status'', new_status L),
               (''created_at'', created_at L), (''issue_id'', Uuid i), (''title'', new_title L),
               (''priority'', new_priority L)]]
       \<and> map event_values (events_of ''assignee_id'' (fst (update_issue reg d h gen now p i u))) =
           [(Some Null, Some (Text (py_str (Uuid U1))))]"
proof -
  note c = read_update_current [OF rd]
  note l = read_update_locals [OF rd]
  from update_issue_success [OF rd ok] obtain cb where
    pf: "fst (update_issue reg d h gen now p i u) =
           writes_of reg L @ history_writes gen L cb (changes_of reg L)"
    by blast
  have old: "old_assignee_id L = Null" using l(5) absent by simp
  have key: "has_key (updated_fields L) ''assignee_id''"
    using supplied by (simp add: c has_key_def payload_lookup)
  have new: "new_assignee_id L = Uuid U1"
    using supplied by (simp add: l dict_get_def payload_lookup)
  have a: "on_table issues_by_assignee (writes_of reg L) = [insert_new_assignee L]"
    using old key new
    by (cases reg) (simp_all add: on_table_def sync_defs stmt_defs Let_def)
  have ch: "changes_to ''assignee_id'' (changes_of reg L) = [(''assignee_id'', Null, Text U1)]"
    using old key new
    by (cases reg)
       (simp_all add: changes_to_def changes_first_def changes_second_def str_if_truthy_def
          py_eq_def Let_def)
  have e: "map event_values (events_of ''assignee_id'' (fst (update_issue reg d h gen now p i u))) =
             [(Some Null, Some (Text U1))]"
    using events_of_performed [OF pf, of "''assignee_id''"] ch
    by (simp add: str_if_not_None_def)
  have "on_table issues_by_assignee (fst (update_issue reg d h gen now p i u)) = [insert_new_assignee L]"
    unfolding pf by (simp add: on_table_append a on_table_history_writes)
  with e new c show ?thesis by (simp add: insert_new_assignee_def)
qed

section \<open>Claims\<close>



text \<open>
  C4. The claim asks that NotFound and NoOpUpdate reach the caller as results distinct from
  a storage error. Both handlers raise them as HTTPException 404 and 400 inside the
  \<^verbatim>\<open>try\<close> block whose \<^verbatim>\<open>except Exception\<close> clause catches every exception, these two
  included, and raises HTTPException 500 in its place. Every failure of either
  registration therefore carries status 500: the missing issue, the empty payload and the
  unreachable store alike.
\<close>

theorem C4_failures_surface_as_500:
  "(case snd (update_issue reg d h gen now p i u) of
      Inl e \<Rightarrow> status_code e = Some 500 | Inr r \<Rightarrow> True)
   \<and> snd (update_issue reg stored_db Healthy event_ids ''t1'' ''p1'' ''i2'' (unset\<lparr>u_title := Some (Some ''x'')\<rparr>)) =
       Inl (HTTPException 500 ''Error updating issue: 404: Issue not found'')
   \<and> snd (update_issue Second stored_db Healthy event_ids ''t1'' ''p1'' ''i1'' unset) =
       Inl (HTTPException 500 ''Error updating issue: 400: No fields to update'')
   \<and> snd (update_issue reg stored_db (FailsAfter 0 ''NoHostAvailable'') event_ids ''t1'' ''p1'' ''i1'' (unset\<lparr>u_title := Some (Some ''x'')\<rparr>)) =
       Inl (HTTPException 500 ''Error updating issue: NoHostAvailable'')"
proof -
  have g: "(case snd (update_issue reg d h gen now p i u) of
      Inl e \<Rightarrow> status_code e = Some 500 | Inr r \<Rightarrow> True)"
    by (rule surfaced_500)
  have a: "snd (update_issue reg stored_db Healthy event_ids ''t1'' ''p1'' ''i2'' (unset\<lparr>u_title := Some (Some ''x'')\<rparr>)) =
       Inl (HTTPException 500 ''Error updating issue: 404: Issue not found'')"
    by (cases reg) (simp_all add: handler_defs read_defs stored_db_def stored_issue_def unset_def py_eq_def decimal_codes)
  have b: "snd (update_issue Second stored_db Healthy event_ids ''t1'' ''p1'' ''i1'' unset) =
       Inl (HTTPException 500 ''Error updating issue: 400: No fields to update'')"
    by (simp add: handler_defs read_defs stored_db_def stored_issue_def unset_def py_eq_def decimal_codes)
  have c: "snd (update_issue reg stored_db (FailsAfter 0 ''NoHostAvailable'') event_ids ''t1'' ''p1'' ''i1'' (unset\<lparr>u_title := Some (Some ''x'')\<rparr>)) =
       Inl (HTTPException 500 ''Error updating issue: NoHostAvailable'')"
    by (cases reg) (simp_all add: handler_defs read_defs stored_db_def stored_issue_def unset_def py_eq_def decimal_codes)
  from g a b c show ?thesis by blast
qed

text \<open>
  C5. An update with an empty payload performs no write, and the \<^verbatim>\<open>try\<close> block raises
  HTTPException 400 "No fields to update"; the \<^verbatim>\<open>except Exception\<close> clause of the same
  handler turns it into status 500. No run of either registration fails with the 400.
\<close>

theorem C5_no_fields_surfaces_as_500:
  "dict_exclude_unset unset = []
   \<and> update_issue First stored_db Healthy event_ids ''t1'' ''p1'' ''i1'' unset =
       ([], Inl (HTTPException 500 ''Error updating issue: 400: No fields to update''))
   \<and> update_issue Second stored_db Healthy event_ids ''t1'' ''p1'' ''i1'' unset =
       ([], Inl (HTTPException 500 ''Error updating issue: 400: No fields to update''))
   \<and> snd (update_issue reg d h gen now p i u) \<noteq> Inl (HTTPException 400 ''No fields to update'')"
proof -
  have a: "dict_exclude_unset unset = []"
    by (simp add: dict_exclude_unset_def unset_def)
  have b: "update_issue First stored_db Healthy event_ids ''t1'' ''p1'' ''i1'' unset =
       ([], Inl (HTTPException 500 ''Error updating issue: 400: No fields to update''))"
    by (simp add: handler_defs read_defs stored_db_def stored_issue_def unset_def py_eq_def
          decimal_codes)
  have c: "update_issue Second stored_db Healthy event_ids ''t1'' ''p1'' ''i1'' unset =
       ([], Inl (HTTPException 500 ''Error updating issue: 400: No fields to update''))"
    by (simp add: handler_defs read_defs stored_db_def stored_issue_def unset_def py_eq_def
          decimal_codes)
  have d: "snd (update_issue reg d h gen now p i u) \<noteq> Inl (HTTPException 400 ''No fields to update'')"
    using never_no_fields [of reg d h gen now p i u] by (simp add: no_fields_to_update_def)
  from a b c d show ?thesis by simp
qed

text \<open>
  C6. An update that names an issue with no canonical row performs no write, and the
  \<^verbatim>\<open>try\<close> block raises HTTPException 404; the \<^verbatim>\<open>except Exception\<close> clause turns it
  into status 500, so the operation does not fail with NotFound.
\<close>

theorem C6_not_found_surfaces_as_500:
  "update_issue First stored_db Healthy event_ids ''t1'' ''p1'' ''i2'' (unset\<lparr>u_title := Some (Some ''x'')\<rparr>) =
     ([], Inl (HTTPException 500 ''Error updating issue: 404: Issue not found''))
   \<and> update_issue Second stored_db Healthy event_ids ''t1'' ''p1'' ''i2'' (unset\<lparr>u_title := Some (Some ''x'')\<rparr>) =
     ([], Inl (HTTPException 500 ''Error updating issue: 404: Issue not found''))"
  by (simp add: handler_defs read_defs stored_db_def stored_issue_def unset_def py_eq_def decimal_codes)

text \<open>
  C7. For every update of an existing issue that returns, under either registration: the
  one statement performed against issues_by_project is an UPDATE that sets title,
  description, status, priority, assignee_id and updated_at, and neither reporter_id nor
  created_at, at the key (project_id, created_at, issue_id) of the row that was read;
  that row is in the table and matches the key; and after all the statements of the
  update are applied, every row of issues_by_project has the project_id, issue_id,
  reporter_id and created_at it had before.
\<close>

theorem C7_canonical_update_in_place:
  assumes rd: "read_update reg d h now p i u = Inr (h1, cur, L)"
      and ok: "snd (update_issue reg d h gen now p i u) = Inr r"
  shows "on_table issues_by_project (fst (update_issue reg d h gen now p i u)) =
           [Update issues_by_project
              [(''title'', new_title L), (''description'', new_description L),
               (''status'', new_status L), (''priority'', new_priority L),
               (''assignee_id'', new_assignee_id L), (''updated_at'', Timestamp now)]
              [(''project_id'', Uuid p), (''created_at'', created_at L), (''issue_id'', Uuid i)]]
       \<and> cur \<in> set (d issues_by_project)
       \<and> matches [(''project_id'', Uuid p), (''created_at'', created_at L), (''issue_id'', Uuid i)] cur
       \<and> map identity_of (apply_all d (fst (update_issue reg d h gen now p i u)) issues_by_project) =
           map identity_of (d issues_by_project)"
proof -
  note c = read_update_current [OF rd]
  from update_issue_success [OF rd ok] obtain cb where
    pf: "fst (update_issue reg d h gen now p i u) =
           writes_of reg L @ history_writes gen L cb (changes_of reg L)"
    by blast
  from writes_of_split obtain rest where
    w: "writes_of reg L = update_main L @ rest" and rest: "on_table issues_by_project rest = []"
    by blast
  have m: "matches [(''project_id'', Uuid (project_uuid L)), (''created_at'', created_at L),
                    (''issue_id'', Uuid (issue_uuid L))] cur"
    using c by (simp add: matches_def)
  have a: "on_table issues_by_project (fst (update_issue reg d h gen now p i u)) = update_main L"
    unfolding pf by (simp add: on_table_append on_table_project_writes on_table_history_writes)
  have tail: "on_table issues_by_project (rest @ history_writes gen L cb (changes_of reg L)) = []"
    using rest by (simp add: on_table_append on_table_history_writes)
  have "apply_all d (fst (update_issue reg d h gen now p i u)) issues_by_project =
          apply_all (apply_all d (update_main L)) (rest @ history_writes gen L cb (changes_of reg L))
            issues_by_project"
    unfolding pf w by (simp add: apply_all_append)
  also have "\<dots> = apply_all d (update_main L) issues_by_project"
    using tail by (rule apply_all_other)
  finally have e: "apply_all d (fst (update_issue reg d h gen now p i u)) issues_by_project =
                     apply_all d (update_main L) issues_by_project" .
  have b: "map identity_of (apply_all d (fst (update_issue reg d h gen now p i u)) issues_by_project) =
             map identity_of (d issues_by_project)"
    unfolding e using c(1) m by (rule update_main_effect)
  from a b c m show ?thesis by (simp add: update_main_def)
qed

theorem C7_canonical_update_in_place_witness:
  "on_table issues_by_project
     (fst (update_issue Second stored_db Healthy event_ids ''t1'' ''p1'' ''i1'' title_update)) =
     [Update issues_by_project
        [(''title'', Text ''Login is broken''), (''description'', Text ''Cannot log in''),
         (''status'', Text ''open''), (''priority'', Text ''medium''),
         (''assignee_id'', Null), (''updated_at'', Timestamp ''t1'')]
        [(''project_id'', Uuid ''p1''), (''created_at'', Timestamp ''t0''), (''issue_id'', Uuid ''i1'')]]
   \<and> map identity_of
        (apply_all stored_db
           (fst (update_issue Second stored_db Healthy event_ids ''t1'' ''p1'' ''i1'' title_update))
           issues_by_project) =
      [(Some (Uuid ''p1''), Some (Uuid ''i1''), Some (Uuid ''u9''), Some (Timestamp ''t0''))]"
  using C7_canonical_update_in_place [OF read_title_update run_title_update]
  by (simp add: title_locals_def stored_db_def stored_issue_def identity_of_def)

text \<open>
  C8. The issue has no assignee and the payload sets assignee_id to \<^verbatim>\<open>u1\<close>. The first
  registration reads \<^verbatim>\<open>current_issue['component']\<close>, a column the issues_by_project
  table of \<^verbatim>\<open>database.py\<close> does not have: it raises before any write, so no
  issues_by_assignee row is inserted and no history event persisted. The second
  registration inserts the one row and persists the one event.
\<close>

theorem C8_first_registration_assigns_nothing:
  "map_of stored_issue ''assignee_id'' = Some Null
   \<and> dict_exclude_unset assign_update = [(''assignee_id'', Uuid ''u1'')]
   \<and> update_issue First stored_db Healthy event_ids ''t1'' ''p1'' ''i1'' assign_update =
       ([], Inl (HTTPException 500
                   (''Error updating issue: '' @ [CHR 0x27] @ ''component'' @ [CHR 0x27])))
   \<and> on_table issues_by_assignee
        (fst (update_issue Second stored_db Healthy event_ids ''t1'' ''p1'' ''i1'' assign_update)) =
      [Insert issues_by_assignee
         [(''project_id'', Uuid ''p1''), (''assignee_id'', Uuid ''u1''), (''status'', Text ''open''),
          (''created_at'', Timestamp ''t0''), (''issue_id'', Uuid ''i1''),
          (''title'', Text ''Login fails''), (''priority'', Text ''medium'')]]
   \<and> map event_values
        (events_of ''assignee_id''
           (fst (update_issue Second stored_db Healthy event_ids ''t1'' ''p1'' ''i1'' assign_update))) =
      [(Some Null, Some (Text ''u1''))]"
  by (simp add: eval_defs)

text \<open>
  C2. The payload supplies status with the value the issue already has. The first
  registration tests whether the payload has the key, not whether the value changed: on a
  row of the issues_by_project table of \<^verbatim>\<open>database.py\<close> it performs no write at all
  (the row has no component column and \<^verbatim>\<open>current_issue['component']\<close> raises), and on
  a row that carries a component key it deletes the issues_by_status row and inserts it
  again. The second registration performs the single in-place update the claim asks for.
\<close>

theorem C2_first_registration_rewrites_on_presence:
  "map_of stored_issue ''status'' = Some (Text ''open'')
   \<and> dict_exclude_unset same_status_update = [(''status'', Member ''Status.OPEN'' ''open'')]
   \<and> fst (update_issue First stored_db Healthy event_ids ''t1'' ''p1'' ''i1'' same_status_update) = []
   \<and> on_table issues_by_status
        (fst (update_issue First stored_db_with_component Healthy event_ids ''t1'' ''p1'' ''i1''
                same_status_update)) =
      [Delete issues_by_status
         [(''project_id'', Uuid ''p1''), (''status'', Text ''open''),
          (''created_at'', Timestamp ''t0''), (''issue_id'', Uuid ''i1'')],
       Insert issues_by_status
         [(''project_id'', Uuid ''p1''), (''status'', Member ''Status.OPEN'' ''open''),
          (''created_at'', Timestamp ''t0''), (''issue_id'', Uuid ''i1''),
          (''title'', Text ''Login fails''), (''priority'', Text ''medium''),
          (''assignee_id'', Null)]]
   \<and> on_table issues_by_status
        (fst (update_issue Second stored_db Healthy event_ids ''t1'' ''p1'' ''i1''
                same_status_update)) =
      [Update issues_by_status
         [(''title'', Text ''Login fails''), (''priority'', Text ''medium''), (''assignee_id'', Null)]
         [(''project_id'', Uuid ''p1''), (''status'', Member ''Status.OPEN'' ''open''),
          (''created_at'', Timestamp ''t0''), (''issue_id'', Uuid ''i1'')]]"
  by (simp add: eval_defs)

text \<open>
  C1. A title-only change: the first registration persists no history event, neither on a
  row of the issues_by_project table of \<^verbatim>\<open>database.py\<close>, where it raises before any
  write, nor on a row that carries a component key, where it returns; the second
  registration persists the one event. A status supplied with its current value: the first
  registration persists a status event where it returns, the second persists none.
\<close>

theorem C1_first_registration_history:
  "map_of stored_issue ''title'' = Some (Text ''Login fails'')
   \<and> dict_exclude_unset title_update = [(''title'', Text ''Login is broken'')]
   \<and> on_table issue_history
        (fst (update_issue First stored_db Healthy event_ids ''t1'' ''p1'' ''i1'' title_update)) = []
   \<and> on_table issue_history
        (fst (update_issue First stored_db_with_component Healthy event_ids ''t1'' ''p1'' ''i1''
                title_update)) = []
   \<and> map event_field
        (on_table issue_history
           (fst (update_issue Second stored_db Healthy event_ids ''t1'' ''p1'' ''i1'' title_update))) =
      [Some (Text ''title'')]
   \<and> map event_field
        (on_table issue_history
           (fst (update_issue First stored_db_with_component Healthy event_ids ''t1'' ''p1'' ''i1''
                   same_status_update))) =
      [Some (Text ''status'')]
   \<and> on_table issue_history
        (fst (update_issue Second stored_db Healthy event_ids ''t1'' ''p1'' ''i1'' same_status_update)) = []"
  by (simp add: eval_defs)




text \<open>
  C10. The payload supplies status with its current value: the first registration, on a
  row of the issues_by_project table of \<^verbatim>\<open>database.py\<close>, raises before any write and
  persists no status event; the second persists none either, the value being unchanged.
  On a title change the first persists no event and the second persists one, so the
  history events of the two registrations differ.
\<close>

theorem C10_first_registration_records_nothing:
  "dict_exclude_unset same_status_update = [(''status'', Member ''Status.OPEN'' ''open'')]
   \<and> update_issue First stored_db Healthy event_ids ''t1'' ''p1'' ''i1'' same_status_update =
       ([], Inl (HTTPException 500
                   (''Error updating issue: '' @ [CHR 0x27] @ ''component'' @ [CHR 0x27])))
   \<and> on_table issue_history
        (fst (update_issue Second stored_db Healthy event_ids ''t1'' ''p1'' ''i1'' same_status_update)) = []
   \<and> on_table issue_history
        (fst (update_issue First stored_db Healthy event_ids ''t1'' ''p1'' ''i1'' title_update)) = []
   \<and> map event_field
        (on_table issue_history
           (fst (update_issue Second stored_db Healthy event_ids ''t1'' ''p1'' ''i1'' title_update))) =
      [Some (Text ''title'')]"
  by (simp add: eval_defs)

end
